theory Spec2Isabelle
  imports Main "HOL-Library.Sublist"
begin

section \<open>Python strings\<close>

text \<open>
  A Python \<open>str\<close> is modelled as a \<open>string\<close>: a list of characters whose codes
  \<open>0..255\<close> are read as the code points U+0000..U+00FF. On this range
  \<open>str.lower\<close> maps A..Z and the accented capitals U+00C0..U+00DE (the
  multiplication sign U+00D7 apart) to the character 32 places further on and leaves
  every other character alone.
\<close>

definition is_upper :: "char \<Rightarrow> bool" where
  "is_upper c = (let n = (of_char c :: nat) in
     (65 \<le> n \<and> n \<le> 90) \<or> (192 \<le> n \<and> n \<le> 222 \<and> n \<noteq> 215))"

definition lower_char :: "char \<Rightarrow> char" where
  "lower_char c = (if is_upper c then char_of ((of_char c :: nat) + 32) else c)"

definition lower :: "string \<Rightarrow> string" where
  "lower s = map lower_char s"

text \<open>
  \<open>str.isspace\<close> on one character: tab, line feed, vertical tab, form feed, carriage
  return, the four separators U+001C..U+001F, space, NEL (U+0085) and the no-break
  space (U+00A0).
\<close>

definition isspace :: "char \<Rightarrow> bool" where
  "isspace c = (let n = (of_char c :: nat) in
     (9 \<le> n \<and> n \<le> 13) \<or> (28 \<le> n \<and> n \<le> 32) \<or> n = 133 \<or> n = 160)"

text \<open>\<open>s.strip()\<close>: leading and trailing whitespace removed.\<close>

definition strip :: "string \<Rightarrow> string" where
  "strip s = rev (dropWhile isspace (rev (dropWhile isspace s)))"

text \<open>\<open>s.split()\<close>: the maximal runs of non-whitespace characters, in order.\<close>

fun split_acc :: "string \<Rightarrow> string \<Rightarrow> string list" where
  "split_acc cur [] = (if cur = [] then [] else [cur])"
| "split_acc cur (c # cs) =
     (if isspace c then (if cur = [] then split_acc [] cs else cur # split_acc [] cs)
      else split_acc (cur @ [c]) cs)"

definition split :: "string \<Rightarrow> string list" where
  "split s = split_acc [] s"

text \<open>\<open>s.replace(old, '')\<close> for a one-character \<open>old\<close>: every occurrence removed.\<close>

definition remove_char :: "char \<Rightarrow> string \<Rightarrow> string" where
  "remove_char c s = filter (\<lambda>d. d \<noteq> c) s"

text \<open>\<open>sub in s\<close>: \<open>sub\<close> occurs in \<open>s\<close> as a contiguous run.\<close>

fun py_in :: "string \<Rightarrow> string \<Rightarrow> bool" where
  "py_in sub [] = (sub = [])"
| "py_in sub (c # cs) = (prefix sub (c # cs) \<or> py_in sub cs)"

text \<open>The quote characters and the line feed of the f-strings.\<close>

definition sq :: string where "sq = [CHR 0x27]"
definition dq :: string where "dq = [CHR 0x22]"
definition nl :: string where "nl = [CHR 0x0A]"

section \<open>Section 3 of main.py: GitHub resources\<close>

text \<open>
  A repository record of the search response is a JSON object, a Python dict: a map
  from keys to values. The four keys that are read hold a string or \<open>null\<close>.
\<close>

datatype jval = JNull | JStr string

type_synonym repo = "string \<rightharpoonup> jval"

text \<open>
  An accepted resource \<open>{"name": .., "url": .., "role_specific": ..}\<close>, and what is left
  of it once \<open>role_specific\<close> is deleted. \<open>name\<close> is whatever \<open>repo["full_name"]\<close> holds.
\<close>

record resource =
  name :: jval
  url :: string

record tagged_resource = resource +
  role_specific :: bool

datatype error = AttributeError | KeyError

text \<open>The guard \<open>job_role and job_role.strip()\<close>, written four times in the function.\<close>

definition job_role_given :: "string option \<Rightarrow> bool" where
  "job_role_given job_role =
     (case job_role of None \<Rightarrow> False | Some r \<Rightarrow> r \<noteq> [] \<and> strip r \<noteq> [])"

text \<open>The five base queries and the four role queries (lines 205-221).\<close>

definition base_queries :: "string \<Rightarrow> string list" where
  "base_queries company =
     [dq @ company @ dq @ '' interview questions'',
      company @ '' '' @ dq @ ''technical interview'' @ dq,
      company @ '' '' @ dq @ ''coding interview'' @ dq,
      company @ '' '' @ dq @ ''interview preparation'' @ dq,
      company @ '' '' @ dq @ ''interview experience'' @ dq]"

definition role_queries :: "string \<Rightarrow> string \<Rightarrow> string list" where
  "role_queries company job_role =
     [dq @ company @ dq @ '' '' @ job_role @ '' interview'',
      company @ '' '' @ job_role @ '' '' @ dq @ ''interview questions'' @ dq,
      company @ '' '' @ job_role @ '' '' @ dq @ ''technical interview'' @ dq,
      job_role @ '' '' @ dq @ ''interview preparation'' @ dq @ '' '' @ company]"

text \<open>
  The search loop (lines 228-245). The HTTP request is outside the program:
  \<open>fetch query\<close> is \<open>Some items\<close> when the request answers 200 with a body whose
  \<open>items\<close> are read, and \<open>None\<close> on another status or on any exception, which the loop
  swallows.
\<close>

fun collect_results :: "(string \<Rightarrow> repo list option) \<Rightarrow> string list \<Rightarrow> repo list" where
  "collect_results fetch [] = []"
| "collect_results fetch (query # queries) =
     (case fetch query of None \<Rightarrow> [] | Some items \<Rightarrow> items) @ collect_results fetch queries"

text \<open>The interview keywords (lines 252-257).\<close>

definition interview_keywords :: "string list" where
  "interview_keywords =
     [''interview question'', ''hiring process'', ''coding challenge'',
      ''assessment'', ''interview experience'', ''interview prep'',
      ''technical interview'', ''onsite interview'', ''online assessment'',
      ''leetcode'', ''interview problem'']"

text \<open>
  \<open>repo.get("html_url")\<close> as the URL test reads it: a missing key, \<open>null\<close> and the empty
  string are all falsy.
\<close>

definition get_url :: "repo \<Rightarrow> string option" where
  "get_url repo = (case repo ''html_url'' of
       Some (JStr u) \<Rightarrow> (if u = [] then None else Some u)
     | _ \<Rightarrow> None)"

text \<open>
  \<open>repo.get("name", "").lower()\<close>: the default covers a missing key only, so a key
  that is present with \<open>null\<close> raises \<open>AttributeError\<close>.
\<close>

definition get_name :: "repo \<Rightarrow> error + string" where
  "get_name repo = (case repo ''name'' of
       None \<Rightarrow> Inr (lower [])
     | Some JNull \<Rightarrow> Inl AttributeError
     | Some (JStr s) \<Rightarrow> Inr (lower s))"

text \<open>\<open>(repo.get("description") or "").lower()\<close>.\<close>

definition get_description :: "repo \<Rightarrow> string" where
  "get_description repo = (case repo ''description'' of
       Some (JStr s) \<Rightarrow> lower (if s = [] then [] else s)
     | _ \<Rightarrow> lower [])"

text \<open>The haystack \<open>f"{name} {description}"\<close> (lines 275-277).\<close>

definition content_of :: "repo \<Rightarrow> error + string" where
  "content_of repo = (case get_name repo of
       Inl e \<Rightarrow> Inl e
     | Inr name_lower \<Rightarrow> Inr (name_lower @ '' '' @ get_description repo))"

text \<open>
  The loop over \<open>all_results\<close> (lines 269-300), with \<open>seen_urls\<close> and
  \<open>company_resources\<close> passed along. A \<open>continue\<close> goes to the next record without the
  test of the count at the bottom of the body; \<open>break\<close> returns what was accepted.
\<close>

fun scan :: "string \<Rightarrow> string option \<Rightarrow> string list \<Rightarrow> int \<Rightarrow> string set \<Rightarrow>
    tagged_resource list \<Rightarrow> repo list \<Rightarrow> error + tagged_resource list" where
  "scan company_lower job_role keywords max_results seen_urls company_resources [] =
     Inr company_resources"
| "scan company_lower job_role keywords max_results seen_urls company_resources (repo # rest) =
     (case get_url repo of
        None \<Rightarrow> scan company_lower job_role keywords max_results seen_urls company_resources rest
      | Some repo_url \<Rightarrow>
        if repo_url \<in> seen_urls
        then scan company_lower job_role keywords max_results seen_urls company_resources rest
        else (case content_of repo of
           Inl e \<Rightarrow> Inl e
         | Inr content \<Rightarrow>
           if \<not> py_in company_lower content
           then scan company_lower job_role keywords max_results seen_urls company_resources rest
           else
             let is_role_specific =
                   (if job_role_given job_role
                    then list_ex (\<lambda>role_term. py_in role_term content)
                           (split (lower (the job_role)))
                    else False)
             in (case (if list_ex (\<lambda>keyword. py_in keyword content) keywords
                       then (case repo ''full_name'' of
                               None \<Rightarrow> Inl KeyError
                             | Some full_name \<Rightarrow>
                                 Inr (company_resources @
                                        [\<lparr>name = full_name, url = repo_url,
                                          role_specific = is_role_specific\<rparr>],
                                      insert repo_url seen_urls))
                       else Inr (company_resources, seen_urls)) of
                   Inl e \<Rightarrow> Inl e
                 | Inr (company_resources', seen_urls') \<Rightarrow>
                     if int (length company_resources') \<ge> max_results * 2
                     then Inr company_resources'
                     else scan company_lower job_role keywords max_results seen_urls'
                            company_resources' rest)))"

text \<open>
  The two tests of lines 280 and 289 on one record: its haystack is built without
  error, contains the company name and contains one of the keywords.
\<close>

definition passes_gates :: "string \<Rightarrow> string list \<Rightarrow> repo \<Rightarrow> bool" where
  "passes_gates company_lower keywords repo =
     (case content_of repo of
        Inl e \<Rightarrow> False
      | Inr content \<Rightarrow>
          py_in company_lower content \<and> list_ex (\<lambda>keyword. py_in keyword content) keywords)"

text \<open>\<open>del resource["role_specific"]\<close> (lines 308-310).\<close>

definition strip_role :: "tagged_resource \<Rightarrow> resource" where
  "strip_role r = \<lparr>name = name r, url = url r\<rparr>"

text \<open>
  The slice \<open>xs[:n]\<close>: the first \<open>n\<close> elements, and for a negative \<open>n\<close> all but the
  last \<open>-n\<close>.
\<close>

definition slice_to :: "'a list \<Rightarrow> int \<Rightarrow> 'a list" where
  "slice_to xs n = (if 0 \<le> n then take (nat n) xs else take (length xs - nat (- n)) xs)"

text \<open>
  The reassignment \<open>job_role = job_role.strip().lower()\<close> under its guard (lines 214-215
  and again 260-261).
\<close>

definition normalize_role :: "string option \<Rightarrow> string option" where
  "normalize_role job_role =
     (if job_role_given job_role then Some (lower (strip (the job_role))) else job_role)"

text \<open>The query list (lines 205-223): the role queries come first.\<close>

definition search_queries :: "string \<Rightarrow> string option \<Rightarrow> string list" where
  "search_queries company job_role =
     (if job_role_given job_role
      then role_queries company (lower (strip (the job_role))) @ base_queries company
      else base_queries company)"

text \<open>
  The keyword list in force during the loop (lines 252-263); \<open>job_role\<close> is the variable
  as the second reassignment has left it.
\<close>

definition keywords_for :: "string option \<Rightarrow> string list" where
  "keywords_for job_role =
     (if job_role_given job_role
      then interview_keywords @ [the job_role, remove_char (CHR '' '') (the job_role)]
      else interview_keywords)"

text \<open>
  Lines 303-305: \<open>list.sort\<close> is stable, and the key \<open>not role_specific\<close> puts \<open>False\<close>
  before \<open>True\<close>.
\<close>

definition prioritize :: "string option \<Rightarrow> tagged_resource list \<Rightarrow> tagged_resource list" where
  "prioritize job_role company_resources =
     (if job_role_given job_role
      then sort_key (\<lambda>x. \<not> role_specific x) company_resources
      else company_resources)"

text \<open>
  Lines 247-317: everything after the search loop, on the records it has gathered.
  \<open>job_role\<close> enters as the first reassignment has left it.
\<close>

definition filter_results ::
    "string \<Rightarrow> string option \<Rightarrow> int \<Rightarrow> repo list \<Rightarrow> error + resource list" where
  "filter_results company job_role max_results all_results =
     (if all_results = [] then Inr []
      else
        let job_role = normalize_role job_role
        in (case scan (lower company) job_role (keywords_for job_role) max_results {} []
                   all_results of
              Inl e \<Rightarrow> Inl e
            | Inr company_resources \<Rightarrow>
                let company_resources = map strip_role (prioritize job_role company_resources)
                in if company_resources \<noteq> []
                   then Inr (slice_to company_resources max_results)
                   else Inr []))"

definition get_github_resources ::
    "(string \<Rightarrow> repo list option) \<Rightarrow> string \<Rightarrow> string option \<Rightarrow> int \<Rightarrow> error + resource list" where
  "get_github_resources fetch company job_role max_results =
     filter_results company (normalize_role job_role) max_results
       (collect_results fetch (search_queries company job_role))"

section \<open>The fallback table\<close>

text \<open>
  The two dicts of \<open>get_improved_fallback_resources\<close> as association lists: a Python
  dict is iterated in the order its keys were inserted, and the loops below stop at the
  first key that matches.
\<close>

definition company_resources_table :: "(string \<times> resource list) list" where
  "company_resources_table =
     [(''amazon'',
        [\<lparr>name = JStr ''Amazon Interview Guide'',
           url = ''https://github.com/jwasham/coding-interview-university''\<rparr>,
         \<lparr>name = JStr ''Amazon Assessment Questions'',
           url = ''https://github.com/twowaits/SDE-Interview-Questions/tree/master/Amazon''\<rparr>,
         \<lparr>name = JStr ''Amazon Interview Questions'',
           url = ''https://github.com/krishnadey30/LeetCode-Questions-CompanyWise/blob/master/amazon_alltime.txt''\<rparr>]),
      (''google'',
        [\<lparr>name = JStr ''Google Interview Questions'',
           url = ''https://github.com/mgechev/google-interview-preparation-problems''\<rparr>,
         \<lparr>name = JStr ''Google Tech Dev Guide'',
           url = ''https://github.com/jayshah19949596/CodingInterviews''\<rparr>,
         \<lparr>name = JStr ''Google Interview Resources'',
           url = ''https://github.com/krishnadey30/LeetCode-Questions-CompanyWise/blob/master/google_alltime.txt''\<rparr>]),
      (''facebook'',
        [\<lparr>name = JStr ''Meta/Facebook Interview Questions'',
           url = ''https://github.com/twowaits/SDE-Interview-Questions/tree/master/Facebook''\<rparr>,
         \<lparr>name = JStr ''Meta Technical Interview Guide'',
           url = ''https://github.com/khanhnamle1994/cracking-the-data-science-interview''\<rparr>,
         \<lparr>name = JStr ''Facebook Interview Resources'',
           url = ''https://github.com/krishnadey30/LeetCode-Questions-CompanyWise/blob/master/facebook_alltime.txt''\<rparr>]),
      (''meta'',
        [\<lparr>name = JStr ''Meta/Facebook Interview Questions'',
           url = ''https://github.com/twowaits/SDE-Interview-Questions/tree/master/Facebook''\<rparr>,
         \<lparr>name = JStr ''Meta Technical Interview Guide'',
           url = ''https://github.com/khanhnamle1994/cracking-the-data-science-interview''\<rparr>,
         \<lparr>name = JStr ''Facebook Interview Resources'',
           url = ''https://github.com/krishnadey30/LeetCode-Questions-CompanyWise/blob/master/facebook_alltime.txt''\<rparr>]),
      (''microsoft'',
        [\<lparr>name = JStr ''Microsoft Interview Questions'',
           url = ''https://github.com/twowaits/SDE-Interview-Questions/tree/master/Microsoft''\<rparr>,
         \<lparr>name = JStr ''Microsoft Interview Preparation'',
           url = ''https://github.com/Olshansk/interview''\<rparr>,
         \<lparr>name = JStr ''Microsoft Interview Resources'',
           url = ''https://github.com/krishnadey30/LeetCode-Questions-CompanyWise/blob/master/microsoft_alltime.txt''\<rparr>]),
      (''apple'',
        [\<lparr>name = JStr ''Apple Interview Preparation'',
           url = ''https://github.com/hxu296/leetcode-company-wise-problems-2022''\<rparr>,
         \<lparr>name = JStr ''Apple Interview Questions'',
           url = ''https://github.com/krishnadey30/LeetCode-Questions-CompanyWise/blob/master/apple_alltime.txt''\<rparr>,
         \<lparr>name = JStr ''Apple Technical Interview'',
           url = ''https://github.com/checkcheckzz/system-design-interview''\<rparr>]),
      (''netflix'',
        [\<lparr>name = JStr ''Netflix Interview Questions'',
           url = ''https://github.com/twowaits/SDE-Interview-Questions''\<rparr>,
         \<lparr>name = JStr ''Netflix Technical Interview'',
           url = ''https://github.com/yangshun/tech-interview-handbook''\<rparr>]),
      (''tesla'',
        [\<lparr>name = JStr ''Tesla Interview Prep'',
           url = ''https://github.com/krishnadey30/LeetCode-Questions-CompanyWise''\<rparr>,
         \<lparr>name = JStr ''Tesla Technical Questions'',
           url = ''https://github.com/h5bp/Front-end-Developer-Interview-Questions''\<rparr>])]"

definition role_resources_table :: "(string \<times> resource list) list" where
  "role_resources_table =
     [(''software engineer'',
        [\<lparr>name = JStr ''Software Engineering Interview Preparation'',
           url = ''https://github.com/jwasham/coding-interview-university''\<rparr>,
         \<lparr>name = JStr ''Software Engineer Coding Questions'',
           url = ''https://github.com/twowaits/SDE-Interview-Questions''\<rparr>]),
      (''frontend'',
        [\<lparr>name = JStr ''Frontend Interview Questions'',
           url = ''https://github.com/h5bp/Front-end-Developer-Interview-Questions''\<rparr>,
         \<lparr>name = JStr ''Frontend Interview Handbook'',
           url = ''https://github.com/yangshun/front-end-interview-handbook''\<rparr>]),
      (''backend'',
        [\<lparr>name = JStr ''Backend Interview Questions'',
           url = ''https://github.com/arialdomartini/Back-End-Developer-Interview-Questions''\<rparr>,
         \<lparr>name = JStr ''System Design for Backend Engineers'',
           url = ''https://github.com/donnemartin/system-design-primer''\<rparr>]),
      (''data scientist'',
        [\<lparr>name = JStr ''Data Science Interview Resources'',
           url = ''https://github.com/khanhnamle1994/cracking-the-data-science-interview''\<rparr>,
         \<lparr>name = JStr ''Data Science Interview Questions'',
           url = ''https://github.com/alexeygrigorev/data-science-interviews''\<rparr>]),
      (''machine learning'',
        [\<lparr>name = JStr ''Machine Learning Interviews'',
           url = ''https://github.com/chiphuyen/machine-learning-systems-design''\<rparr>,
         \<lparr>name = JStr ''ML Interview Guide'',
           url = ''https://github.com/khangich/machine-learning-interview''\<rparr>]),
      (''devops'',
        [\<lparr>name = JStr ''DevOps Interview Questions'',
           url = ''https://github.com/bregman-arie/devops-exercises''\<rparr>,
         \<lparr>name = JStr ''DevOps Resource Collection'',
           url = ''https://github.com/MichaelCade/90DaysOfDevOps''\<rparr>])]"

text \<open>
  \<open>for key in table: if cond(key): found = table[key]; break\<close>, with \<open>found\<close> starting
  as the empty list.
\<close>

fun first_match :: "(string \<Rightarrow> bool) \<Rightarrow> (string \<times> resource list) list \<Rightarrow> resource list" where
  "first_match cond [] = []"
| "first_match cond ((key, val) # rest) = (if cond key then val else first_match cond rest)"

definition get_improved_fallback_resources :: "string \<Rightarrow> string option \<Rightarrow> resource list" where
  "get_improved_fallback_resources company job_role =
     (let company_lower = lower company;
          company_specific =
            first_match (\<lambda>key. py_in key company_lower \<or> py_in company_lower key)
              company_resources_table
      in if (case job_role of None \<Rightarrow> False | Some r \<Rightarrow> r \<noteq> []) \<and> company_specific \<noteq> []
         then
           let job_role_lower = lower (the job_role);
               role_specific =
                 first_match (\<lambda>role_key. py_in role_key job_role_lower \<or>
                     list_ex (\<lambda>t. py_in t job_role_lower) (split role_key))
                   role_resources_table
           in if role_specific \<noteq> [] then role_specific @ company_specific
              else company_specific
         else company_specific)"

section \<open>Section 1 of main.py: the company overview\<close>

text \<open>
  The generative model is outside the program: \<open>model prompt\<close> is \<open>Inr text\<close> when
  \<open>generate_content\<close> answers, and \<open>Inl e\<close> with the text of the exception when it
  raises.
\<close>

definition validation_prompt :: "string \<Rightarrow> string" where
  "validation_prompt company =
     ''Does the company '' @ sq @ company @ sq @
     '' exist as a known business entity? Respond with '' @ sq @ ''yes'' @ sq @ '' or '' @
     sq @ ''no'' @ sq @ ''.''"

definition overview_prompt :: "string \<Rightarrow> string option \<Rightarrow> string" where
  "overview_prompt company role =
     (''Generate a detailed overview for the company '' @ sq @ company @ sq @
      ''. Include details such as its foundation, '' @
      ''CEO, services, and the countries where its products or services are available. '' @
      ''If you'' @ sq @ ''re not confident about specific information, DO NOT include guesses or placeholders. '' @
      ''Only include verified facts about the company. If you can'' @ sq @
      ''t find enough information about this company, '' @
      ''state clearly what information is available and what isn'' @ sq @ ''t.'') @
     (case role of
        None \<Rightarrow> []
      | Some r \<Rightarrow>
          if r = [] then []
          else nl @ nl @ ''Also, include specific information about '' @ sq @ r @ sq @
               '' positions at '' @ company @ '', such as: '' @
               ''1. Typical job responsibilities for '' @ r @ '' at '' @ company @ '', '' @
               ''2. Required skills and qualifications for this role, '' @
               ''3. Career growth opportunities for '' @ r @ '' positions, '' @
               ''4. Any specific technologies or tools used by '' @ r @ ''s at '' @ company @ ''.'' @
               nl @ nl @ ''If you don'' @ sq @ ''t have specific information about this role at '' @
               company @ '', clearly state that.'')"

text \<open>The list \<open>uncertainty_phrases\<close> of line 108, as it is written.\<close>

definition uncertainty_phrases :: "string list" where
  "uncertainty_phrases =
     [''I don'' @ sq @ ''t have'', ''I cannot'', ''I'' @ sq @ ''m not able'',
      ''insufficient information'']"

definition generate_company_overview ::
    "(string \<Rightarrow> string + string) \<Rightarrow> string \<Rightarrow> string option \<Rightarrow> string" where
  "generate_company_overview model company role =
     (case model (validation_prompt company) of
        Inl e \<Rightarrow> ''Sorry, I couldn'' @ sq @ ''t generate information about '' @ sq @ company @ sq @
                 '' at this time. Error: '' @ e
      | Inr validation_response \<Rightarrow>
          if \<not> py_in ''yes'' (lower validation_response)
          then ''Sorry, I couldn'' @ sq @ ''t find reliable information about '' @ sq @ company @ sq @
               ''. Please verify the company name or try a different company.''
          else (case model (overview_prompt company role) of
             Inl e \<Rightarrow> ''Sorry, I couldn'' @ sq @ ''t generate information about '' @ sq @ company @
                      sq @ '' at this time. Error: '' @ e
           | Inr overview \<Rightarrow>
               if list_ex (\<lambda>phrase. py_in phrase (lower overview)) uncertainty_phrases
               then ''Based on available information about '' @ sq @ company @ sq @ '':'' @
                    nl @ nl @ overview
               else overview))"

section \<open>Example records\<close>

text \<open>
  Concrete inputs on which the theorems below are run. \<open>fetch_first q items\<close> is a
  search service that answers the query \<open>q\<close> with \<open>items\<close> and fails on every other
  query.
\<close>

definition fetch_first :: "string \<Rightarrow> repo list \<Rightarrow> string \<Rightarrow> repo list option" where
  "fetch_first q items query = (if query = q then Some items else None)"

definition ex_rejected :: repo where
  "ex_rejected = [''html_url'' \<mapsto> JStr ''https://github.com/a/b'',
     ''name'' \<mapsto> JStr ''Google-Interview-Questions'',
     ''full_name'' \<mapsto> JStr ''a/b'',
     ''description'' \<mapsto> JStr ''Notes'']"

definition ex_accepted :: repo where
  "ex_accepted = [''html_url'' \<mapsto> JStr ''https://github.com/a/b'',
     ''name'' \<mapsto> JStr ''Google-LeetCode'',
     ''full_name'' \<mapsto> JStr ''c/d'',
     ''description'' \<mapsto> JNull]"

definition ex_second :: repo where
  "ex_second = [''html_url'' \<mapsto> JStr ''https://github.com/a/b'',
     ''name'' \<mapsto> JStr ''google-prep'',
     ''full_name'' \<mapsto> JStr ''e/f'',
     ''description'' \<mapsto> JStr ''Technical Interview notes for Google'']"

definition ex_other :: repo where
  "ex_other = [''html_url'' \<mapsto> JStr ''https://github.com/g/h'',
     ''name'' \<mapsto> JStr ''google-prep'',
     ''full_name'' \<mapsto> JStr ''g/h'',
     ''description'' \<mapsto> JStr ''Online Assessment questions'']"


definition ex_role :: repo where
  "ex_role = [''html_url'' \<mapsto> JStr ''https://github.com/r/s'',
     ''name'' \<mapsto> JStr ''google-sde-notes'',
     ''full_name'' \<mapsto> JStr ''r/s'']"

section \<open>Strings: basic facts\<close>

lemma py_in_sublist: "py_in sub s \<longleftrightarrow> sublist sub s"
  by (induction s) (auto simp: sublist_Cons_right)

lemma lower_frontend: "lower ''frontend'' = ''frontend''"
  by code_simp

lemma company_match_facebook:
  "first_match (\<lambda>key. py_in key ''facebook'' \<or> py_in ''facebook'' key)
     company_resources_table =
     [\<lparr>name = JStr ''Meta/Facebook Interview Questions'',
        url = ''https://github.com/twowaits/SDE-Interview-Questions/tree/master/Facebook''\<rparr>,
       \<lparr>name = JStr ''Meta Technical Interview Guide'',
        url = ''https://github.com/khanhnamle1994/cracking-the-data-science-interview''\<rparr>,
       \<lparr>name = JStr ''Facebook Interview Resources'',
        url = ''https://github.com/krishnadey30/LeetCode-Questions-CompanyWise/blob/master/facebook_alltime.txt''\<rparr>]"
  by code_simp

lemma role_match_frontend:
  "first_match (\<lambda>role_key. py_in role_key ''frontend'' \<or>
       list_ex (\<lambda>t. py_in t ''frontend'') (split role_key))
     role_resources_table =
     [\<lparr>name = JStr ''Frontend Interview Questions'',
        url = ''https://github.com/h5bp/Front-end-Developer-Interview-Questions''\<rparr>,
       \<lparr>name = JStr ''Frontend Interview Handbook'',
        url = ''https://github.com/yangshun/front-end-interview-handbook''\<rparr>]"
  by code_simp

lemma of_char_lt_256: "(of_char c :: nat) < 256"
  by (metis of_char_mod_256 mod_less_divisor zero_less_numeral)

lemma is_upper_lower_char: "\<not> is_upper (lower_char c)"
  using of_char_lt_256 [of c]
  by (auto simp: is_upper_def lower_char_def Let_def)

lemma lower_char_idem: "lower_char (lower_char c) = lower_char c"
  using is_upper_lower_char [of c] by (simp add: lower_char_def)

lemma lower_idem: "lower (lower s) = lower s"
  by (simp add: lower_def lower_char_idem)

lemma isspace_lower_char: "isspace (lower_char c) = isspace c"
  using of_char_lt_256 [of c]
  by (auto simp: is_upper_def lower_char_def isspace_def Let_def)

lemma lower_Nil_iff: "lower s = [] \<longleftrightarrow> s = []"
  by (simp add: lower_def)

lemma dropWhile_isspace_lower:
  "dropWhile isspace (lower s) = lower (dropWhile isspace s)"
  by (induction s) (simp_all add: lower_def isspace_lower_char)

lemma strip_lower: "strip (lower s) = lower (strip s)"
proof -
  have r: "rev (lower t) = lower (rev t)" for t by (simp add: lower_def rev_map)
  show ?thesis
    by (simp add: strip_def dropWhile_isspace_lower r)
qed

lemma dropWhile_rev_dropWhile:
  "dropWhile P (rev (dropWhile P (rev (dropWhile P s)))) = rev (dropWhile P (rev (dropWhile P s)))"
proof (cases "dropWhile P s")
  case Nil
  then show ?thesis by (simp only: rev.simps dropWhile.simps)
next
  case (Cons a as)
  then have na: "\<not> P a" by (metis hd_dropWhile list.sel(1) list.distinct(1))
  have "rev (a # as) = rev as @ [a]" by simp
  then have "dropWhile P (rev (a # as)) = dropWhile P (rev as) @ [a]"
    using na by (simp add: dropWhile_append3)
  then show ?thesis using Cons na by simp
qed

lemma strip_idem: "strip (strip s) = strip s"
proof -
  let ?b = "dropWhile isspace (rev (dropWhile isspace s))"
  have "dropWhile isspace (rev ?b) = rev ?b" by (rule dropWhile_rev_dropWhile)
  then show ?thesis by (simp add: strip_def dropWhile_idem)
qed

lemma strip_all_space:
  assumes "\<forall>c\<in>set s. isspace c"
  shows "strip s = []"
proof -
  have "dropWhile isspace s = []" using assms by simp
  then show ?thesis by (simp only: strip_def rev.simps dropWhile.simps)
qed

lemma job_role_given_normalize: "job_role_given (normalize_role jr) = job_role_given jr"
  by (auto simp: normalize_role_def job_role_given_def strip_lower strip_idem lower_Nil_iff
      split: option.splits)

lemma normalize_role_idem: "normalize_role (normalize_role jr) = normalize_role jr"
proof (cases "job_role_given jr")
  case True
  then have "job_role_given (normalize_role jr)" by (simp add: job_role_given_normalize)
  then show ?thesis using True
    by (simp add: normalize_role_def strip_lower strip_idem lower_idem)
next
  case False
  then show ?thesis by (simp add: normalize_role_def)
qed

section \<open>The scan loop, one record at a time\<close>

lemma scan_sound:
  "scan cl jr kws mr seen acc repos = Inr out \<Longrightarrow> t \<in> set out \<Longrightarrow>
   t \<in> set acc \<or> (\<exists>repo\<in>set repos. \<exists>content. get_url repo = Some (url t) \<and>
      repo ''full_name'' = Some (name t) \<and> content_of repo = Inr content \<and>
      py_in cl content \<and> list_ex (\<lambda>k. py_in k content) kws)"
proof (induction repos arbitrary: seen acc)
  case Nil
  then show ?case by simp
next
  case (Cons repo rest)
  show ?case
    using Cons.prems Cons.IH
    apply (simp split: option.splits if_splits sum.splits prod.splits add: Let_def)
    apply (fastforce+)
    done
qed

lemma scan_same_fields:
  assumes "get_url r = get_url r'" "content_of r = content_of r'"
    "r ''full_name'' = r' ''full_name''"
  shows "scan cl jr kws mr seen acc (r # rest) = scan cl jr kws mr seen acc (r' # rest)"
  by (simp only: scan.simps assms)

lemma scan_skip:
  assumes "get_url r = None \<or> (\<exists>u. get_url r = Some u \<and> u \<in> seen)"
  shows "scan cl jr kws mr seen acc (r # rest) = scan cl jr kws mr seen acc rest"
  using assms by auto

lemma scan_reject:
  assumes "content_of r = Inr c" "\<not> (py_in cl c \<and> list_ex (\<lambda>k. py_in k c) kws)"
    "int (length acc) < mr * 2"
  shows "scan cl jr kws mr seen acc (r # rest) = scan cl jr kws mr seen acc rest"
  using assms by (auto split: option.splits)

lemma scan_accept:
  assumes "get_url r = Some u" "u \<notin> seen" "content_of r = Inr c" "py_in cl c"
    "list_ex (\<lambda>k. py_in k c) kws" "r ''full_name'' = Some fn"
  shows "scan cl jr kws mr seen acc (r # rest) =
     (if mr * 2 \<le> int (length acc) + 1
      then Inr (acc @ [\<lparr>name = fn, url = u, role_specific =
              (job_role_given jr \<and> list_ex (\<lambda>t. py_in t c) (split (lower (the jr))))\<rparr>])
      else scan cl jr kws mr (insert u seen)
             (acc @ [\<lparr>name = fn, url = u, role_specific =
              (job_role_given jr \<and> list_ex (\<lambda>t. py_in t c) (split (lower (the jr))))\<rparr>]) rest)"
  using assms by (simp add: Let_def)

lemma scan_step_cases:
  obtains (continue) "\<And>rest. scan cl jr kws mr seen acc (r # rest) = scan cl jr kws mr seen acc rest"
  | (raise) e where "\<And>rest. scan cl jr kws mr seen acc (r # rest) = Inl e"
  | (stop) "mr * 2 \<le> int (length acc)" "\<And>rest. scan cl jr kws mr seen acc (r # rest) = Inr acc"
  | (accept) t where "get_url r = Some (url t)" "url t \<notin> seen"
      "\<And>rest. scan cl jr kws mr seen acc (r # rest) =
         (if mr * 2 \<le> int (length acc) + 1 then Inr (acc @ [t])
          else scan cl jr kws mr (insert (url t) seen) (acc @ [t]) rest)"
      "role_specific t \<Longrightarrow> job_role_given jr"
proof (cases "get_url r")
  case None
  then show ?thesis using continue by simp
next
  case (Some u)
  show ?thesis
  proof (cases "u \<in> seen")
    case True
    then show ?thesis using Some continue by simp
  next
    case False
    show ?thesis
    proof (cases "content_of r")
      case (Inl e)
      then show ?thesis using Some False raise [of e] by simp
    next
      case (Inr c)
      show ?thesis
      proof (cases "py_in cl c")
        case nc: False
        then show ?thesis using Some False Inr continue by simp
      next
        case pc: True
        show ?thesis
        proof (cases "list_ex (\<lambda>k. py_in k c) kws")
          case nk: False
          show ?thesis
          proof (cases "mr * 2 \<le> int (length acc)")
            case True
            then show ?thesis using Some False Inr pc nk stop by simp
          next
            case nb: False
            then show ?thesis using Some False Inr pc nk continue by simp
          qed
        next
          case k: True
          show ?thesis
          proof (cases "r ''full_name''")
            case None
            then show ?thesis using Some False Inr pc k raise [of KeyError] by simp
          next
            case (Some fn)
            let ?t = "\<lparr>name = fn, url = u, role_specific =
              (job_role_given jr \<and> list_ex (\<lambda>t. py_in t c) (split (lower (the jr))))\<rparr>"
            have "url ?t = u" by simp
            then show ?thesis
              using scan_accept [OF \<open>get_url r = Some u\<close> False Inr pc k Some, of jr mr acc]
                accept [of ?t] \<open>get_url r = Some u\<close> False
              by simp
          qed
        qed
      qed
    qed
  qed
qed

lemma scan_role_irrelevant:
  "\<not> job_role_given a \<Longrightarrow> \<not> job_role_given b \<Longrightarrow>
   scan cl a kws mr seen acc xs = scan cl b kws mr seen acc xs"
proof (induction xs arbitrary: seen acc)
  case Nil
  then show ?case by simp
next
  case (Cons r xs)
  then show ?case
    by (auto split: option.splits sum.splits prod.splits)
qed

declare scan.simps(2) [simp del]

section \<open>The scan loop over a list\<close>



lemma scan_drop_rejected:
  "int (length acc) < mr * 2 \<Longrightarrow> content_of r = Inr c \<Longrightarrow>
   \<not> (py_in cl c \<and> list_ex (\<lambda>k. py_in k c) kws) \<Longrightarrow>
   scan cl jr kws mr seen acc (xs @ r # ys) = scan cl jr kws mr seen acc (xs @ ys)"
proof (induction xs arbitrary: seen acc)
  case Nil
  then show ?case using scan_reject [of r c cl kws acc mr jr seen ys] by simp
next
  case (Cons x xs)
  show ?case
  proof (cases rule: scan_step_cases [of cl jr kws mr seen acc x])
    case continue
    then show ?thesis using Cons by simp
  next
    case (raise e)
    then show ?thesis by simp
  next
    case stop
    then show ?thesis by simp
  next
    case (accept t)
    show ?thesis
    proof (cases "mr * 2 \<le> int (length acc) + 1")
      case True
      then show ?thesis using accept(3) by simp
    next
      case False
      then have lt: "int (length (acc @ [t])) < mr * 2" by simp
      have eq: "scan cl jr kws mr seen acc (x # rest) =
          scan cl jr kws mr (insert (url t) seen) (acc @ [t]) rest" for rest
        using accept(3) False by simp
      show ?thesis using eq Cons.prems(2,3) Cons.IH [OF lt] by simp
    qed
  qed
qed

lemma scan_distinct:
  "url ` set acc \<subseteq> seen \<Longrightarrow> distinct (map url acc) \<Longrightarrow>
   scan cl jr kws mr seen acc xs = Inr out \<Longrightarrow> distinct (map url out)"
proof (induction xs arbitrary: seen acc)
  case Nil
  then show ?case by simp
next
  case (Cons r xs)
  show ?case
  proof (cases rule: scan_step_cases [of cl jr kws mr seen acc r])
    case continue
    then show ?thesis using Cons by simp
  next
    case (raise e)
    then show ?thesis using Cons.prems by simp
  next
    case stop
    then show ?thesis using Cons.prems by simp
  next
    case (accept t)
    have d: "distinct (map url (acc @ [t]))" using Cons.prems(1,2) accept(2) by auto
    have s: "url ` set (acc @ [t]) \<subseteq> insert (url t) seen" using Cons.prems(1) by auto
    show ?thesis
    proof (cases "mr * 2 \<le> int (length acc) + 1")
      case True
      then show ?thesis using accept(3) Cons.prems(3) d by simp
    next
      case False
      then show ?thesis using accept(3) Cons.prems(3) Cons.IH [OF s d] by simp
    qed
  qed
qed

lemma scan_drop_seen:
  "url ` set acc \<subseteq> seen \<Longrightarrow> scan cl jr kws mr seen acc xs = Inr out \<Longrightarrow>
   get_url r = Some u \<Longrightarrow> u \<in> url ` set out \<Longrightarrow>
   scan cl jr kws mr seen acc (xs @ r # ys) = scan cl jr kws mr seen acc (xs @ ys)"
proof (induction xs arbitrary: seen acc)
  case Nil
  then have "u \<in> seen" by auto
  then show ?case using Nil.prems(3) scan_skip [of r seen cl jr kws mr acc ys] by simp
next
  case (Cons x xs)
  show ?case
  proof (cases rule: scan_step_cases [of cl jr kws mr seen acc x])
    case continue
    then show ?thesis using Cons by simp
  next
    case (raise e)
    then show ?thesis by simp
  next
    case stop
    then show ?thesis by simp
  next
    case (accept t)
    have s: "url ` set (acc @ [t]) \<subseteq> insert (url t) seen" using Cons.prems(1) by auto
    show ?thesis
    proof (cases "mr * 2 \<le> int (length acc) + 1")
      case True
      then show ?thesis using accept(3) by simp
    next
      case False
      then show ?thesis using accept(3) Cons.prems(2,3,4) Cons.IH [OF s] by simp
    qed
  qed
qed

lemma scan_flags_false:
  "\<not> job_role_given jr \<Longrightarrow> list_all (\<lambda>t. \<not> role_specific t) acc \<Longrightarrow>
   scan cl jr kws mr seen acc xs = Inr out \<Longrightarrow> list_all (\<lambda>t. \<not> role_specific t) out"
proof (induction xs arbitrary: seen acc)
  case Nil
  then show ?case by simp
next
  case (Cons r xs)
  show ?case
  proof (cases rule: scan_step_cases [of cl jr kws mr seen acc r])
    case continue
    then show ?thesis using Cons by simp
  next
    case (raise e)
    then show ?thesis using Cons.prems by simp
  next
    case stop
    then show ?thesis using Cons.prems by simp
  next
    case (accept t)
    have a: "list_all (\<lambda>t. \<not> role_specific t) (acc @ [t])"
      using Cons.prems(1,2) accept(4) by auto
    show ?thesis
    proof (cases "mr * 2 \<le> int (length acc) + 1")
      case True
      then show ?thesis using accept(3) Cons.prems(3) a by simp
    next
      case False
      then show ?thesis using accept(3) Cons.prems(1,3) Cons.IH [OF _ a] by simp
    qed
  qed
qed

lemma insort_key_front: "P x \<Longrightarrow> insort_key (\<lambda>x. \<not> P x) x ys = x # ys"
  by (cases ys) auto

lemma insort_key_not_front:
  "insort_key (\<lambda>x. \<not> P x) x (filter P xs @ ys) =
     (if P x then x # filter P xs @ ys else filter P xs @ insort_key (\<lambda>x. \<not> P x) x ys)"
  by (induction xs) (auto simp: insort_key_front)

lemma insort_key_not_back:
  "\<not> P x \<Longrightarrow> insort_key (\<lambda>x. \<not> P x) x (filter (\<lambda>x. \<not> P x) xs) = x # filter (\<lambda>x. \<not> P x) xs"
  by (cases "filter (\<lambda>x. \<not> P x) xs") (auto simp: filter_eq_Cons_iff)

lemma sort_key_not:
  "sort_key (\<lambda>x. \<not> P x) xs = filter P xs @ filter (\<lambda>x. \<not> P x) xs"
proof (induction xs)
  case Nil
  then show ?case by simp
next
  case (Cons x xs)
  then show ?case
    by (simp add: insort_key_not_front insort_key_not_back)
qed

section \<open>From the loop to the result\<close>

lemma set_slice_to: "set (slice_to xs n) \<subseteq> set xs"
  by (auto simp: slice_to_def dest: in_set_takeD)

lemma set_prioritize: "set (prioritize jr xs) = set xs"
  by (simp add: prioritize_def)

lemma filter_results_sound:
  assumes "filter_results company jr mr repos = Inr out" "r \<in> set out"
  shows "\<exists>repo\<in>set repos. \<exists>content. get_url repo = Some (url r) \<and>
      repo ''full_name'' = Some (name r) \<and> content_of repo = Inr content \<and>
      py_in (lower company) content \<and>
      list_ex (\<lambda>k. py_in k content) (keywords_for (normalize_role jr))"
proof -
  let ?jr = "normalize_role jr"
  have ne: "repos \<noteq> []" using assms by (auto simp: filter_results_def)
  obtain acc where sc: "scan (lower company) ?jr (keywords_for ?jr) mr {} [] repos = Inr acc"
    using assms ne by (cases "scan (lower company) ?jr (keywords_for ?jr) mr {} [] repos")
      (auto simp: filter_results_def Let_def)
  have "out = slice_to (map strip_role (prioritize ?jr acc)) mr \<or> out = []"
    using assms(1) ne sc by (auto simp: filter_results_def Let_def split: if_splits)
  then have "r \<in> set (map strip_role (prioritize ?jr acc))"
    using assms(2) set_slice_to by fastforce
  then obtain t where t: "t \<in> set acc" "r = strip_role t"
    by (auto simp: set_prioritize)
  have "url r = url t" "name r = name t" using t(2) by (simp_all add: strip_role_def)
  then show ?thesis using scan_sound [OF sc t(1)] by simp
qed

lemma keywords_for_normalized:
  "keywords_for (normalize_role (normalize_role jr)) =
     interview_keywords @
       (if job_role_given jr
        then [lower (strip (the jr)), remove_char (CHR '' '') (lower (strip (the jr)))]
        else [])"
  by (simp add: normalize_role_idem keywords_for_def job_role_given_normalize)
     (simp add: normalize_role_def)

lemma slice_to_Nil: "slice_to [] n = []"
  by (simp add: slice_to_def)

lemma filter_results_scan:
  "filter_results company jr mr repos =
     (case scan (lower company) (normalize_role jr) (keywords_for (normalize_role jr)) mr {} []
             repos of
        Inl e \<Rightarrow> Inl e
      | Inr acc \<Rightarrow> Inr (slice_to (map strip_role (prioritize (normalize_role jr) acc)) mr))"
proof (cases "repos = []")
  case True
  then show ?thesis by (simp add: filter_results_def prioritize_def slice_to_Nil)
next
  case False
  then show ?thesis
    by (auto simp: filter_results_def Let_def slice_to_Nil split: sum.splits)
qed

lemma distinct_map_prioritize:
  assumes "distinct (map url xs)"
  shows "distinct (map url (prioritize jr xs))"
proof (cases "job_role_given jr")
  case False
  then show ?thesis using assms by (simp add: prioritize_def)
next
  case True
  have inj: "inj_on url (set xs)" using assms by (simp add: distinct_map)
  have "url ` {x \<in> set xs. role_specific x} \<inter> url ` {x \<in> set xs. \<not> role_specific x} = {}"
    using inj by (auto simp: inj_on_def)
  then show ?thesis using True assms
    by (simp add: prioritize_def sort_key_not distinct_map_filter)
qed

lemma distinct_slice_to: "distinct xs \<Longrightarrow> distinct (slice_to xs n)"
  by (simp add: slice_to_def)

lemma prioritize_single: "prioritize jr [t] = [t]"
  by (simp add: prioritize_def)

lemma slice_to_single: "0 < n \<Longrightarrow> slice_to [x] n = [x]"
  by (cases "nat n") (auto simp: slice_to_def)

lemma filter_results_distinct:
  assumes "filter_results company jr mr repos = Inr out"
  shows "distinct (map url out)"
proof -
  let ?jr = "normalize_role jr"
  obtain acc where sc: "scan (lower company) ?jr (keywords_for ?jr) mr {} [] repos = Inr acc"
    and out: "out = slice_to (map strip_role (prioritize ?jr acc)) mr"
    using assms unfolding filter_results_scan by (auto split: sum.splits)
  have "distinct (map url acc)" using scan_distinct [OF _ _ sc] by simp
  then have "distinct (map url (prioritize ?jr acc))" by (rule distinct_map_prioritize)
  then have "distinct (slice_to (map url (prioritize ?jr acc)) mr)"
    by (rule distinct_slice_to)
  moreover have "map url out = slice_to (map url (prioritize ?jr acc)) mr"
    using out by (simp add: slice_to_def take_map strip_role_def comp_def)
  ultimately show ?thesis by simp
qed

lemma filter_results_first_wins:
  assumes "0 < mr" "get_url r1 = Some u" "get_url r2 = Some u" "content_of r1 = Inr c"
    "py_in (lower company) c"
    "list_ex (\<lambda>k. py_in k c) (keywords_for (normalize_role jr))"
    "r1 ''full_name'' = Some fn"
  shows "filter_results company jr mr [r1, r2] = Inr [\<lparr>name = fn, url = u\<rparr>]"
proof -
  let ?jr = "normalize_role jr"
  let ?t = "\<lparr>name = fn, url = u, role_specific =
      (job_role_given ?jr \<and> list_ex (\<lambda>t. py_in t c) (split (lower (the ?jr))))\<rparr>"
  have a: "scan (lower company) ?jr (keywords_for ?jr) mr {} [] [r1, r2] =
      scan (lower company) ?jr (keywords_for ?jr) mr {u} [?t] [r2]"
    using scan_accept [OF assms(2) _ assms(4,5,6,7), of "{}" ?jr mr "[]" "[r2]"] assms(1)
    by simp
  have b: "scan (lower company) ?jr (keywords_for ?jr) mr {u} [?t] [r2] = Inr [?t]"
    using scan_skip [of r2 "{u}" "lower company" ?jr "keywords_for ?jr" mr "[?t]" "[]"] assms(3)
    by simp
  show ?thesis
    unfolding filter_results_scan a b using assms(1)
    by (simp add: prioritize_single slice_to_single strip_role_def)
qed

lemma filter_results_second_after_rejected:
  assumes "0 < mr" "content_of r1 = Inr c1"
    "\<not> (py_in (lower company) c1 \<and> list_ex (\<lambda>k. py_in k c1) (keywords_for (normalize_role jr)))"
    "get_url r2 = Some u" "content_of r2 = Inr c2"
    "py_in (lower company) c2"
    "list_ex (\<lambda>k. py_in k c2) (keywords_for (normalize_role jr))"
    "r2 ''full_name'' = Some fn"
  shows "filter_results company jr mr [r1, r2] = Inr [\<lparr>name = fn, url = u\<rparr>]"
proof -
  let ?jr = "normalize_role jr"
  let ?t = "\<lparr>name = fn, url = u, role_specific =
      (job_role_given ?jr \<and> list_ex (\<lambda>t. py_in t c2) (split (lower (the ?jr))))\<rparr>"
  have a: "scan (lower company) ?jr (keywords_for ?jr) mr {} [] [r1, r2] =
      scan (lower company) ?jr (keywords_for ?jr) mr {} [] [r2]"
    using scan_reject [OF assms(2,3), of "[]" mr ?jr "{}" "[r2]"] assms(1) by simp
  have b: "scan (lower company) ?jr (keywords_for ?jr) mr {} [] [r2] = Inr [?t]"
    using scan_accept [OF assms(4) _ assms(5,6,7,8), of "{}" ?jr mr "[]" "[]"] assms(1)
    by simp
  show ?thesis
    unfolding filter_results_scan a b using assms(1)
    by (simp add: prioritize_single slice_to_single strip_role_def)
qed

lemma filter_results_drop_rejected:
  assumes "0 < mr" "content_of r = Inr c"
    "\<not> (py_in (lower company) c \<and> list_ex (\<lambda>k. py_in k c) (keywords_for (normalize_role jr)))"
  shows "filter_results company jr mr (xs @ r # ys) = filter_results company jr mr (xs @ ys)"
  unfolding filter_results_scan
  using scan_drop_rejected [OF _ assms(2,3), of "[]" mr] assms(1) by simp

lemma scan_same_fields_mid:
  assumes "get_url r = get_url r'" "content_of r = content_of r'"
    "r ''full_name'' = r' ''full_name''"
  shows "scan cl jr kws mr seen acc (xs @ r # ys) = scan cl jr kws mr seen acc (xs @ r' # ys)"
proof (induction xs arbitrary: seen acc)
  case Nil
  show ?case using scan_same_fields [OF assms] by simp
next
  case (Cons x xs)
  show ?case
  proof (cases rule: scan_step_cases [of cl jr kws mr seen acc x])
    case continue
    then show ?thesis using Cons by simp
  next
    case (raise e)
    then show ?thesis by simp
  next
    case stop
    then show ?thesis by simp
  next
    case (accept t)
    then show ?thesis using Cons by simp
  qed
qed

lemma lower_Nil: "lower [] = []"
  by (simp add: lower_def)

lemma filter_all_false:
  assumes "list_all (\<lambda>t. \<not> P t) xs"
  shows "filter P xs @ filter (\<lambda>x. \<not> P x) xs = xs"
  using assms by (simp add: list_all_iff filter_empty_conv filter_id_conv)

lemma prioritize_scan:
  assumes "scan cl jr kws mr {} [] repos = Inr acc"
  shows "prioritize jr acc = filter role_specific acc @ filter (\<lambda>x. \<not> role_specific x) acc"
proof (cases "job_role_given jr")
  case True
  then show ?thesis by (simp add: prioritize_def sort_key_not)
next
  case False
  have "list_all (\<lambda>t. \<not> role_specific t) acc"
    using scan_flags_false [OF False _ assms] by simp
  then show ?thesis using False by (simp add: prioritize_def filter_all_false)
qed

section \<open>The gates as a predicate\<close>

lemma passes_gates_iff:
  "passes_gates cl kws r \<longleftrightarrow>
     (\<exists>c. content_of r = Inr c \<and> py_in cl c \<and> list_ex (\<lambda>k. py_in k c) kws)"
  by (auto simp: passes_gates_def split: sum.splits)

lemma scan_step_gates:
  obtains (skip) "get_url r = None \<or> (\<exists>u. get_url r = Some u \<and> u \<in> seen)"
      "\<And>rest. scan cl jr kws mr seen acc (r # rest) = scan cl jr kws mr seen acc rest"
  | (raise) e where "\<And>rest. scan cl jr kws mr seen acc (r # rest) = Inl e"
  | (reject) "\<not> passes_gates cl kws r"
      "\<And>rest. scan cl jr kws mr seen acc (r # rest) = scan cl jr kws mr seen acc rest"
  | (stop) "\<And>rest. scan cl jr kws mr seen acc (r # rest) = Inr acc"
  | (accept) t where "get_url r = Some (url t)" "url t \<notin> seen"
      "r ''full_name'' = Some (name t)" "passes_gates cl kws r"
      "\<And>rest. scan cl jr kws mr seen acc (r # rest) =
         (if mr * 2 \<le> int (length acc) + 1 then Inr (acc @ [t])
          else scan cl jr kws mr (insert (url t) seen) (acc @ [t]) rest)"
proof (cases "get_url r")
  case None
  then show ?thesis using skip by (simp add: scan.simps)
next
  case (Some u)
  show ?thesis
  proof (cases "u \<in> seen")
    case True
    then show ?thesis using Some skip by (simp add: scan.simps)
  next
    case False
    show ?thesis
    proof (cases "content_of r")
      case (Inl e)
      then show ?thesis using Some False raise [of e] by (simp add: scan.simps)
    next
      case (Inr c)
      show ?thesis
      proof (cases "py_in cl c \<and> list_ex (\<lambda>k. py_in k c) kws")
        case ng: False
        then have np: "\<not> passes_gates cl kws r" using Inr by (simp add: passes_gates_def)
        show ?thesis
        proof (cases "py_in cl c")
          case False
          then show ?thesis using Some \<open>u \<notin> seen\<close> Inr reject np by (simp add: scan.simps)
        next
          case pc: True
          then have nk: "\<not> list_ex (\<lambda>k. py_in k c) kws" using ng by simp
          show ?thesis
          proof (cases "mr * 2 \<le> int (length acc)")
            case True
            then show ?thesis using Some \<open>u \<notin> seen\<close> Inr pc nk stop by (simp add: scan.simps)
          next
            case nb: False
            then show ?thesis using Some \<open>u \<notin> seen\<close> Inr pc nk reject np
              by (simp add: scan.simps)
          qed
        qed
      next
        case g: True
        then have pg: "passes_gates cl kws r" using Inr by (simp add: passes_gates_def)
        show ?thesis
        proof (cases "r ''full_name''")
          case None
          then show ?thesis using Some False Inr g raise [of KeyError] by (simp add: scan.simps)
        next
          case fn: (Some fn)
          let ?t = "\<lparr>name = fn, url = u, role_specific =
              (job_role_given jr \<and> list_ex (\<lambda>t. py_in t c) (split (lower (the jr))))\<rparr>"
          have "\<And>rest. scan cl jr kws mr seen acc (r # rest) =
             (if mr * 2 \<le> int (length acc) + 1 then Inr (acc @ [?t])
              else scan cl jr kws mr (insert (url ?t) seen) (acc @ [?t]) rest)"
            using scan_accept [OF Some False Inr _ _ fn, of cl kws jr mr acc] g by simp
          then show ?thesis using accept [of ?t] Some False fn pg by simp
        qed
      qed
    qed
  qed
qed

lemma scan_first:
  "scan cl jr kws mr seen acc repos = Inr out \<Longrightarrow> t \<in> set out \<Longrightarrow>
   t \<in> set acc \<or> (url t \<notin> seen \<and> (\<exists>pre r post. repos = pre @ r # post \<and>
      get_url r = Some (url t) \<and> r ''full_name'' = Some (name t) \<and> passes_gates cl kws r \<and>
      \<not> list_ex (\<lambda>q. get_url q = Some (url t) \<and> passes_gates cl kws q) pre))"
proof (induction repos arbitrary: seen acc)
  case Nil
  then show ?case by simp
next
  case (Cons x xs)
  show ?case
  proof (cases rule: scan_step_gates [of x seen cl jr kws mr acc])
    case skip
    then have "scan cl jr kws mr seen acc xs = Inr out" using Cons.prems(1) by simp
    from Cons.IH [OF this Cons.prems(2)] show ?thesis
    proof
      assume "t \<in> set acc" then show ?thesis by simp
    next
      assume a: "url t \<notin> seen \<and> (\<exists>pre r post. xs = pre @ r # post \<and>
        get_url r = Some (url t) \<and> r ''full_name'' = Some (name t) \<and> passes_gates cl kws r \<and>
        \<not> list_ex (\<lambda>q. get_url q = Some (url t) \<and> passes_gates cl kws q) pre)"
      then obtain pre r post where d: "xs = pre @ r # post" "get_url r = Some (url t)"
        "r ''full_name'' = Some (name t)" "passes_gates cl kws r"
        "\<not> list_ex (\<lambda>q. get_url q = Some (url t) \<and> passes_gates cl kws q) pre" by blast
      have nx: "get_url x \<noteq> Some (url t)" using skip(1) a by auto
      have "x # xs = (x # pre) @ r # post" using d(1) by simp
      moreover have "\<not> list_ex (\<lambda>q. get_url q = Some (url t) \<and> passes_gates cl kws q) (x # pre)"
        using d(5) nx by simp
      ultimately show ?thesis using a d(2,3,4) by blast
    qed
  next
    case (raise e)
    then show ?thesis using Cons.prems by simp
  next
    case reject
    then have "scan cl jr kws mr seen acc xs = Inr out" using Cons.prems(1) by simp
    from Cons.IH [OF this Cons.prems(2)] show ?thesis
    proof
      assume "t \<in> set acc" then show ?thesis by simp
    next
      assume a: "url t \<notin> seen \<and> (\<exists>pre r post. xs = pre @ r # post \<and>
        get_url r = Some (url t) \<and> r ''full_name'' = Some (name t) \<and> passes_gates cl kws r \<and>
        \<not> list_ex (\<lambda>q. get_url q = Some (url t) \<and> passes_gates cl kws q) pre)"
      then obtain pre r post where d: "xs = pre @ r # post" "get_url r = Some (url t)"
        "r ''full_name'' = Some (name t)" "passes_gates cl kws r"
        "\<not> list_ex (\<lambda>q. get_url q = Some (url t) \<and> passes_gates cl kws q) pre" by blast
      have "x # xs = (x # pre) @ r # post" using d(1) by simp
      moreover have "\<not> list_ex (\<lambda>q. get_url q = Some (url t) \<and> passes_gates cl kws q) (x # pre)"
        using d(5) reject(1) by simp
      ultimately show ?thesis using a d(2,3,4) by blast
    qed
  next
    case stop
    then show ?thesis using Cons.prems by simp
  next
    case (accept t')
    have here: "url t' \<notin> seen \<and> (\<exists>pre r post. x # xs = pre @ r # post \<and>
        get_url r = Some (url t') \<and> r ''full_name'' = Some (name t') \<and> passes_gates cl kws r \<and>
        \<not> list_ex (\<lambda>q. get_url q = Some (url t') \<and> passes_gates cl kws q) pre)"
    proof -
      have "x # xs = [] @ x # xs" by simp
      moreover have "\<not> list_ex (\<lambda>q. get_url q = Some (url t') \<and> passes_gates cl kws q) []"
        by simp
      ultimately show ?thesis using accept(1,2,3,4) by blast
    qed
    show ?thesis
    proof (cases "mr * 2 \<le> int (length acc) + 1")
      case True
      then have "out = acc @ [t']" using accept(5) Cons.prems(1) by simp
      then have "t \<in> set acc \<or> t = t'" using Cons.prems(2) by auto
      then show ?thesis using here by blast
    next
      case False
      then have "scan cl jr kws mr (insert (url t') seen) (acc @ [t']) xs = Inr out"
        using accept(5) Cons.prems(1) by simp
      from Cons.IH [OF this Cons.prems(2)] show ?thesis
      proof
        assume "t \<in> set (acc @ [t'])"
        then have "t \<in> set acc \<or> t = t'" by auto
        then show ?thesis using here by blast
      next
        assume a: "url t \<notin> insert (url t') seen \<and> (\<exists>pre r post. xs = pre @ r # post \<and>
          get_url r = Some (url t) \<and> r ''full_name'' = Some (name t) \<and> passes_gates cl kws r \<and>
          \<not> list_ex (\<lambda>q. get_url q = Some (url t) \<and> passes_gates cl kws q) pre)"
        then obtain pre r post where d: "xs = pre @ r # post" "get_url r = Some (url t)"
          "r ''full_name'' = Some (name t)" "passes_gates cl kws r"
          "\<not> list_ex (\<lambda>q. get_url q = Some (url t) \<and> passes_gates cl kws q) pre" by blast
        have nx: "get_url x \<noteq> Some (url t)" using accept(1) a by auto
        have "x # xs = (x # pre) @ r # post" using d(1) by simp
        moreover have
          "\<not> list_ex (\<lambda>q. get_url q = Some (url t) \<and> passes_gates cl kws q) (x # pre)"
          using d(5) nx by simp
        moreover have "url t \<notin> seen" using a by simp
        ultimately show ?thesis using d(2,3,4) by blast
      qed
    qed
  qed
qed

lemma filter_results_first:
  assumes "filter_results company jr mr repos = Inr out" "res \<in> set out"
  shows "\<exists>pre r post. repos = pre @ r # post \<and> get_url r = Some (url res) \<and>
      r ''full_name'' = Some (name res) \<and>
      passes_gates (lower company) (keywords_for (normalize_role jr)) r \<and>
      \<not> list_ex (\<lambda>q. get_url q = Some (url res) \<and>
            passes_gates (lower company) (keywords_for (normalize_role jr)) q) pre"
proof -
  let ?jr = "normalize_role jr"
  obtain acc where sc: "scan (lower company) ?jr (keywords_for ?jr) mr {} [] repos = Inr acc"
    and out: "out = slice_to (map strip_role (prioritize ?jr acc)) mr"
    using assms(1) unfolding filter_results_scan by (auto split: sum.splits)
  have "res \<in> set (map strip_role (prioritize ?jr acc))"
    using assms(2) out set_slice_to by fastforce
  then obtain t where t: "t \<in> set acc" "res = strip_role t"
    by (auto simp: set_prioritize)
  have e: "url res = url t" "name res = name t" using t(2) by (simp_all add: strip_role_def)
  show ?thesis using scan_first [OF sc t(1)] unfolding e by simp
qed

lemma filter_results_single:
  assumes "0 < mr" "get_url r = Some u"
    "passes_gates (lower company) (keywords_for (normalize_role jr)) r"
    "r ''full_name'' = Some fn"
  shows "filter_results company jr mr [r] = Inr [\<lparr>name = fn, url = u\<rparr>]"
proof -
  let ?jr = "normalize_role jr"
  obtain c where c: "content_of r = Inr c" "py_in (lower company) c"
    "list_ex (\<lambda>k. py_in k c) (keywords_for ?jr)"
    using assms(3) unfolding passes_gates_iff by blast
  let ?t = "\<lparr>name = fn, url = u, role_specific =
      (job_role_given ?jr \<and> list_ex (\<lambda>t. py_in t c) (split (lower (the ?jr))))\<rparr>"
  have b: "scan (lower company) ?jr (keywords_for ?jr) mr {} [] [r] = Inr [?t]"
    using scan_accept [OF assms(2) _ c assms(4), of "{}" ?jr mr "[]" "[]"] assms(1)
    by simp
  show ?thesis
    unfolding filter_results_scan b using assms(1)
    by (simp add: prioritize_single slice_to_single strip_role_def)
qed

section \<open>The two relevance gates\<close>

text \<open>
  C1. Whatever the search service answers, every resource that \<open>get_github_resources\<close>
  returns was built from a gathered record (its URL is the record's \<open>html_url\<close>, its
  name the record's \<open>full_name\<close>) whose haystack, the lowercased name, a space and the
  lowercased description (empty when missing), contains the lowercased company name.
  A record that fails the company gate is never retained, whatever keywords it holds.
\<close>

theorem company_gate_mandatory:
  assumes "get_github_resources fetch company job_role max_results = Inr out"
    and "r \<in> set out"
  shows "\<exists>repo\<in>set (collect_results fetch (search_queries company job_role)). \<exists>content.
      get_url repo = Some (url r) \<and> repo ''full_name'' = Some (name r) \<and>
      content_of repo = Inr content \<and> py_in (lower company) content"
  using filter_results_sound [OF assms [unfolded get_github_resources_def]] by blast

theorem company_gate_mandatory_witness:
  "get_github_resources
       (fetch_first (dq @ ''Google'' @ dq @ '' interview questions'') [ex_rejected, ex_accepted])
       ''Google'' None 8 =
     Inr [\<lparr>name = JStr ''c/d'', url = ''https://github.com/a/b''\<rparr>]
   \<and> (\<exists>repo\<in>set (collect_results
          (fetch_first (dq @ ''Google'' @ dq @ '' interview questions'') [ex_rejected, ex_accepted])
          (search_queries ''Google'' None)). \<exists>content.
      get_url repo = Some ''https://github.com/a/b'' \<and> repo ''full_name'' = Some (JStr ''c/d'') \<and>
      content_of repo = Inr content \<and> py_in (lower ''Google'') content)"
proof -
  have h: "get_github_resources
       (fetch_first (dq @ ''Google'' @ dq @ '' interview questions'') [ex_rejected, ex_accepted])
       ''Google'' None 8 =
     Inr [\<lparr>name = JStr ''c/d'', url = ''https://github.com/a/b''\<rparr>]"
    by code_simp
  have m: "\<lparr>name = JStr ''c/d'', url = ''https://github.com/a/b''\<rparr> \<in>
      set [\<lparr>name = JStr ''c/d'', url = ''https://github.com/a/b''\<rparr>]" by simp
  show ?thesis using h company_gate_mandatory [OF h m] by simp
qed

text \<open>
  C2. Every returned resource was built from a gathered record whose haystack contains
  at least one interview keyword, where the keywords are the eleven fixed phrases and,
  when a role is supplied, the stripped lowercased role and the same without spaces.
  The same record also passes the company gate: both gates hold together.
\<close>

theorem keyword_gate_mandatory:
  assumes "get_github_resources fetch company job_role max_results = Inr out"
    and "r \<in> set out"
  shows "\<exists>repo\<in>set (collect_results fetch (search_queries company job_role)). \<exists>content.
      get_url repo = Some (url r) \<and> repo ''full_name'' = Some (name r) \<and>
      content_of repo = Inr content \<and>
      list_ex (\<lambda>keyword. py_in keyword content)
        (interview_keywords @
          (if job_role_given job_role
           then [lower (strip (the job_role)),
                 remove_char (CHR '' '') (lower (strip (the job_role)))]
           else [])) \<and>
      py_in (lower company) content"
  using filter_results_sound [OF assms [unfolded get_github_resources_def]]
  unfolding keywords_for_normalized by blast

theorem keyword_gate_mandatory_witness:
  "get_github_resources
       (fetch_first (dq @ ''Google'' @ dq @ '' sde interview'') [ex_rejected, ex_role])
       ''Google'' (Some '' SDE '') 8 =
     Inr [\<lparr>name = JStr ''r/s'', url = ''https://github.com/r/s''\<rparr>]
   \<and> (\<exists>repo\<in>set (collect_results
          (fetch_first (dq @ ''Google'' @ dq @ '' sde interview'') [ex_rejected, ex_role])
          (search_queries ''Google'' (Some '' SDE ''))). \<exists>content.
      get_url repo = Some ''https://github.com/r/s'' \<and> repo ''full_name'' = Some (JStr ''r/s'') \<and>
      content_of repo = Inr content \<and>
      list_ex (\<lambda>keyword. py_in keyword content)
        (interview_keywords @
          (if job_role_given (Some '' SDE '')
           then [lower (strip (the (Some '' SDE ''))),
                 remove_char (CHR '' '') (lower (strip (the (Some '' SDE ''))))]
           else [])) \<and>
      py_in (lower ''Google'') content)"
proof -
  have h: "get_github_resources
       (fetch_first (dq @ ''Google'' @ dq @ '' sde interview'') [ex_rejected, ex_role])
       ''Google'' (Some '' SDE '') 8 =
     Inr [\<lparr>name = JStr ''r/s'', url = ''https://github.com/r/s''\<rparr>]"
    by code_simp
  have m: "\<lparr>name = JStr ''r/s'', url = ''https://github.com/r/s''\<rparr> \<in>
      set [\<lparr>name = JStr ''r/s'', url = ''https://github.com/r/s''\<rparr>]" by simp
  show ?thesis using h keyword_gate_mandatory [OF h m] by simp
qed

section \<open>Deduplication by URL\<close>

text \<open>
  C3, as the code has it. No two returned resources share a URL, so of two records
  with the same URL at most one is retained; and whatever the input list, a returned
  resource is built from the first record with its URL that passes both gates: no
  earlier record with that URL passes them. The loop gets there by three rules on the
  record at hand. A record whose URL is missing, empty or already seen is skipped. A
  record that a gate rejects leaves \<open>seen_urls\<close> and the accepted list as they are, so
  its URL is not marked. A record that passes both gates with an unseen URL is appended
  and its URL is marked. Hence once a record with some URL has been accepted, a later
  record with that URL changes nothing. On the list of just the two records, for a
  positive \<open>max_results\<close>: when the first passes both gates it is the one returned, and
  when the first is rejected by a gate and the second passes, the second is returned.
\<close>

theorem dedup_first_accepted:
  "(filter_results company job_role max_results repos = Inr out \<longrightarrow> distinct (map url out))
   \<and> (filter_results company job_role max_results repos = Inr out \<and> res \<in> set out \<longrightarrow>
        (\<exists>pre r post. repos = pre @ r # post \<and> get_url r = Some (url res) \<and>
           r ''full_name'' = Some (name res) \<and>
           passes_gates (lower company) (keywords_for (normalize_role job_role)) r \<and>
           \<not> list_ex (\<lambda>q. get_url q = Some (url res) \<and>
                 passes_gates (lower company) (keywords_for (normalize_role job_role)) q) pre))
   \<and> (get_url rs = None \<or> (\<exists>u. get_url rs = Some u \<and> u \<in> seen) \<longrightarrow>
        scan cl jr kws mr seen acc (rs # rest) = scan cl jr kws mr seen acc rest)
   \<and> (int (length acc) < mr * 2 \<and> content_of rj = Inr cj \<and> \<not> passes_gates cl kws rj \<longrightarrow>
        scan cl jr kws mr seen acc (rj # rest) = scan cl jr kws mr seen acc rest)
   \<and> (get_url rp = Some up \<and> up \<notin> seen \<and> passes_gates cl kws rp \<and>
        rp ''full_name'' = Some fp \<longrightarrow>
        (\<exists>flag. scan cl jr kws mr seen acc (rp # rest) =
           (if mr * 2 \<le> int (length acc) + 1
            then Inr (acc @ [\<lparr>name = fp, url = up, role_specific = flag\<rparr>])
            else scan cl jr kws mr (insert up seen)
                   (acc @ [\<lparr>name = fp, url = up, role_specific = flag\<rparr>]) rest)))
   \<and> (scan cl jr kws mr {} [] xs = Inr accx \<and> get_url rx = Some ux \<and> ux \<in> url ` set accx \<longrightarrow>
        scan cl jr kws mr {} [] (xs @ rx # ys) = scan cl jr kws mr {} [] (xs @ ys))
   \<and> (0 < max_results \<and> get_url ra = Some ua \<and> get_url rb = Some ua \<and>
        passes_gates (lower company) (keywords_for (normalize_role job_role)) ra \<and>
        ra ''full_name'' = Some fn \<longrightarrow>
        filter_results company job_role max_results [ra, rb] = Inr [\<lparr>name = fn, url = ua\<rparr>])
   \<and> (0 < max_results \<and> get_url rc = Some uc \<and> get_url rd = Some uc \<and>
        content_of rc = Inr cc \<and>
        \<not> passes_gates (lower company) (keywords_for (normalize_role job_role)) rc \<and>
        passes_gates (lower company) (keywords_for (normalize_role job_role)) rd \<and>
        rd ''full_name'' = Some fd \<longrightarrow>
        filter_results company job_role max_results [rc, rd] = Inr [\<lparr>name = fd, url = uc\<rparr>])"
proof (intro conjI impI)
  assume "filter_results company job_role max_results repos = Inr out"
  then show "distinct (map url out)" by (rule filter_results_distinct)
next
  assume "filter_results company job_role max_results repos = Inr out \<and> res \<in> set out"
  then show "\<exists>pre r post. repos = pre @ r # post \<and> get_url r = Some (url res) \<and>
           r ''full_name'' = Some (name res) \<and>
           passes_gates (lower company) (keywords_for (normalize_role job_role)) r \<and>
           \<not> list_ex (\<lambda>q. get_url q = Some (url res) \<and>
                 passes_gates (lower company) (keywords_for (normalize_role job_role)) q) pre"
    using filter_results_first [of company job_role max_results repos out res] by blast
next
  assume "get_url rs = None \<or> (\<exists>u. get_url rs = Some u \<and> u \<in> seen)"
  then show "scan cl jr kws mr seen acc (rs # rest) = scan cl jr kws mr seen acc rest"
    by (rule scan_skip)
next
  assume a: "int (length acc) < mr * 2 \<and> content_of rj = Inr cj \<and> \<not> passes_gates cl kws rj"
  then have "\<not> (py_in cl cj \<and> list_ex (\<lambda>k. py_in k cj) kws)"
    unfolding passes_gates_iff by blast
  then show "scan cl jr kws mr seen acc (rj # rest) = scan cl jr kws mr seen acc rest"
    using scan_reject [of rj cj cl kws acc mr jr seen rest] a by blast
next
  assume a: "get_url rp = Some up \<and> up \<notin> seen \<and> passes_gates cl kws rp \<and>
        rp ''full_name'' = Some fp"
  then obtain c where c: "content_of rp = Inr c" "py_in cl c" "list_ex (\<lambda>k. py_in k c) kws"
    unfolding passes_gates_iff by blast
  show "\<exists>flag. scan cl jr kws mr seen acc (rp # rest) =
           (if mr * 2 \<le> int (length acc) + 1
            then Inr (acc @ [\<lparr>name = fp, url = up, role_specific = flag\<rparr>])
            else scan cl jr kws mr (insert up seen)
                   (acc @ [\<lparr>name = fp, url = up, role_specific = flag\<rparr>]) rest)"
    using scan_accept [of rp up seen c cl kws fp jr mr acc rest] a c by blast
next
  assume "scan cl jr kws mr {} [] xs = Inr accx \<and> get_url rx = Some ux \<and> ux \<in> url ` set accx"
  then show "scan cl jr kws mr {} [] (xs @ rx # ys) = scan cl jr kws mr {} [] (xs @ ys)"
    using scan_drop_seen [of "[]" "{}" cl jr kws mr xs accx rx ux ys] by simp
next
  assume a: "0 < max_results \<and> get_url ra = Some ua \<and> get_url rb = Some ua \<and>
        passes_gates (lower company) (keywords_for (normalize_role job_role)) ra \<and>
        ra ''full_name'' = Some fn"
  then obtain c where "content_of ra = Inr c" "py_in (lower company) c"
    "list_ex (\<lambda>k. py_in k c) (keywords_for (normalize_role job_role))"
    unfolding passes_gates_iff by blast
  then show "filter_results company job_role max_results [ra, rb] = Inr [\<lparr>name = fn, url = ua\<rparr>]"
    using filter_results_first_wins [of max_results ra ua rb c company job_role fn] a by simp
next
  assume a: "0 < max_results \<and> get_url rc = Some uc \<and> get_url rd = Some uc \<and>
        content_of rc = Inr cc \<and>
        \<not> passes_gates (lower company) (keywords_for (normalize_role job_role)) rc \<and>
        passes_gates (lower company) (keywords_for (normalize_role job_role)) rd \<and>
        rd ''full_name'' = Some fd"
  then have n: "\<not> (py_in (lower company) cc \<and>
      list_ex (\<lambda>k. py_in k cc) (keywords_for (normalize_role job_role)))"
    unfolding passes_gates_iff by blast
  obtain c where "content_of rd = Inr c" "py_in (lower company) c"
    "list_ex (\<lambda>k. py_in k c) (keywords_for (normalize_role job_role))"
    using a unfolding passes_gates_iff by blast
  then show "filter_results company job_role max_results [rc, rd] = Inr [\<lparr>name = fd, url = uc\<rparr>]"
    using filter_results_second_after_rejected
      [of max_results rc cc company job_role rd uc c fd] a n by simp
qed

theorem dedup_first_accepted_witness:
  "filter_results ''Google'' None 8 [ex_rejected, ex_accepted, ex_second] =
      Inr [\<lparr>name = JStr ''c/d'', url = ''https://github.com/a/b''\<rparr>]
   \<and> distinct (map url [\<lparr>name = JStr ''c/d'', url = ''https://github.com/a/b''\<rparr>])
   \<and> (\<exists>pre r post. [ex_rejected, ex_accepted, ex_second] = pre @ r # post \<and>
         get_url r = Some ''https://github.com/a/b'' \<and>
         r ''full_name'' = Some (JStr ''c/d'') \<and>
         passes_gates (lower ''Google'') (keywords_for (normalize_role None)) r \<and>
         \<not> list_ex (\<lambda>q. get_url q = Some ''https://github.com/a/b'' \<and>
               passes_gates (lower ''Google'') (keywords_for (normalize_role None)) q) pre)
   \<and> get_url ex_rejected = Some ''https://github.com/a/b''
   \<and> get_url ex_accepted = Some ''https://github.com/a/b''
   \<and> get_url ex_second = Some ''https://github.com/a/b''
   \<and> ex_accepted ''name'' \<noteq> ex_second ''name''
   \<and> scan (lower ''Google'') None (keywords_for (normalize_role None)) 8
        {''https://github.com/a/b''} [] (ex_second # [ex_other]) =
      scan (lower ''Google'') None (keywords_for (normalize_role None)) 8
        {''https://github.com/a/b''} [] [ex_other]
   \<and> scan (lower ''Google'') None (keywords_for (normalize_role None)) 8 {} []
        (ex_rejected # [ex_accepted]) =
      scan (lower ''Google'') None (keywords_for (normalize_role None)) 8 {} [] [ex_accepted]
   \<and> (\<exists>flag. scan (lower ''Google'') None (keywords_for (normalize_role None)) 8 {} []
        (ex_accepted # [ex_second]) =
      scan (lower ''Google'') None (keywords_for (normalize_role None)) 8
        {''https://github.com/a/b''}
        [\<lparr>name = JStr ''c/d'', url = ''https://github.com/a/b'', role_specific = flag\<rparr>]
        [ex_second])
   \<and> scan (lower ''Google'') None (keywords_for (normalize_role None)) 8 {} []
        ([ex_accepted] @ ex_second # [ex_other]) =
      scan (lower ''Google'') None (keywords_for (normalize_role None)) 8 {} []
        ([ex_accepted] @ [ex_other])
   \<and> filter_results ''Google'' None 8 [ex_accepted, ex_second] =
      Inr [\<lparr>name = JStr ''c/d'', url = ''https://github.com/a/b''\<rparr>]
   \<and> filter_results ''Google'' None 8 [ex_rejected, ex_accepted] =
      Inr [\<lparr>name = JStr ''c/d'', url = ''https://github.com/a/b''\<rparr>]"
proof -
  let ?u = "''https://github.com/a/b''"
  let ?cl = "lower ''Google''"
  let ?kw = "keywords_for (normalize_role None)"
  let ?t = "\<lparr>name = JStr ''c/d'', url = ?u, role_specific = False\<rparr>"
  let ?res = "\<lparr>name = JStr ''c/d'', url = ?u\<rparr>"
  have g0: "get_url ex_rejected = Some ?u" by code_simp
  have g1: "get_url ex_accepted = Some ?u" by code_simp
  have g2: "get_url ex_second = Some ?u" by code_simp
  have n: "ex_accepted ''name'' \<noteq> ex_second ''name''" by code_simp
  have c0: "content_of ex_rejected = Inr ''google-interview-questions notes''" by code_simp
  have np: "\<not> passes_gates ?cl ?kw ex_rejected" by code_simp
  have pa: "passes_gates ?cl ?kw ex_accepted" by code_simp
  have fn: "ex_accepted ''full_name'' = Some (JStr ''c/d'')" by code_simp
  have f3: "filter_results ''Google'' None 8 [ex_rejected, ex_accepted, ex_second] = Inr [?res]"
    by code_simp
  have sc: "scan ?cl None ?kw 8 {} [] [ex_accepted] = Inr [?t]" by code_simp
  have mem: "?u \<in> url ` set [?t]" by simp
  have len: "int (length ([] :: tagged_resource list)) < 8 * 2" by simp
  note T = dedup_first_accepted [where company = "''Google''" and job_role = None
      and max_results = 8 and repos = "[ex_rejected, ex_accepted, ex_second]"
      and out = "[?res]" and res = ?res
      and cl = ?cl and jr = None and kws = ?kw and mr = 8 and seen = "{}" and acc = "[]"
      and rj = ex_rejected and cj = "''google-interview-questions notes''"
      and rp = ex_accepted and up = ?u and fp = "JStr ''c/d''"
      and xs = "[ex_accepted]" and accx = "[?t]" and rx = ex_second and ux = ?u
      and ys = "[ex_other]"
      and ra = ex_accepted and rb = ex_second and ua = ?u and fn = "JStr ''c/d''"
      and rc = ex_rejected and rd = ex_accepted and uc = ?u
      and cc = "''google-interview-questions notes''" and fd = "JStr ''c/d''"]
  note S = dedup_first_accepted [where rs = ex_second and seen = "{?u}" and cl = ?cl
      and jr = None and kws = ?kw and mr = 8 and acc = "[]" and rest = "[ex_other]"]
  have w1: "distinct (map url [?res])" using T f3 by blast
  have w2: "\<exists>pre r post. [ex_rejected, ex_accepted, ex_second] = pre @ r # post \<and>
         get_url r = Some ?u \<and> r ''full_name'' = Some (JStr ''c/d'') \<and>
         passes_gates ?cl ?kw r \<and>
         \<not> list_ex (\<lambda>q. get_url q = Some ?u \<and> passes_gates ?cl ?kw q) pre"
    using T f3 by simp
  have w3: "scan ?cl None ?kw 8 {?u} [] (ex_second # [ex_other]) =
      scan ?cl None ?kw 8 {?u} [] [ex_other]"
    using S g2 by simp
  have w4: "scan ?cl None ?kw 8 {} [] (ex_rejected # [ex_accepted]) =
      scan ?cl None ?kw 8 {} [] [ex_accepted]"
    using T [where rest = "[ex_accepted]"] len c0 np by blast
  have w5: "\<exists>flag. scan ?cl None ?kw 8 {} [] (ex_accepted # [ex_second]) =
      scan ?cl None ?kw 8 {?u} [\<lparr>name = JStr ''c/d'', url = ?u, role_specific = flag\<rparr>]
        [ex_second]"
    using T [where rest = "[ex_second]"] g1 pa fn by simp
  have w6: "scan ?cl None ?kw 8 {} [] ([ex_accepted] @ ex_second # [ex_other]) =
      scan ?cl None ?kw 8 {} [] ([ex_accepted] @ [ex_other])"
    using T sc g2 mem by blast
  have w7: "filter_results ''Google'' None 8 [ex_accepted, ex_second] = Inr [?res]"
    using T g1 g2 pa fn by simp
  have w8: "filter_results ''Google'' None 8 [ex_rejected, ex_accepted] = Inr [?res]"
    using T g0 g1 c0 np pa fn by simp
  show ?thesis using f3 w1 w2 g0 g1 g2 n w3 w4 w5 w6 w7 w8 by blast
qed

text \<open>
  C3 as it is stated fails on two records with the same URL of which the first is
  rejected by the keyword gate: the one retained is the second, not the first.
\<close>

theorem dedup_second_retained_counterexample:
  "get_url ex_rejected = get_url ex_accepted
   \<and> ex_rejected ''full_name'' = Some (JStr ''a/b'')
   \<and> ex_accepted ''full_name'' = Some (JStr ''c/d'')
   \<and> collect_results
        (fetch_first (dq @ ''Google'' @ dq @ '' interview questions'') [ex_rejected, ex_accepted])
        (search_queries ''Google'' None) = [ex_rejected, ex_accepted]
   \<and> get_github_resources
        (fetch_first (dq @ ''Google'' @ dq @ '' interview questions'') [ex_rejected, ex_accepted])
        ''Google'' None 8 =
      Inr [\<lparr>name = JStr ''c/d'', url = ''https://github.com/a/b''\<rparr>]"
proof -
  have a: "get_url ex_rejected = get_url ex_accepted" by code_simp
  have b: "ex_rejected ''full_name'' = Some (JStr ''a/b'')" by code_simp
  have c: "ex_accepted ''full_name'' = Some (JStr ''c/d'')" by code_simp
  have d: "collect_results
        (fetch_first (dq @ ''Google'' @ dq @ '' interview questions'') [ex_rejected, ex_accepted])
        (search_queries ''Google'' None) = [ex_rejected, ex_accepted]"
    by (simp add: fetch_first_def search_queries_def job_role_given_def base_queries_def dq_def)
  have e: "get_github_resources
        (fetch_first (dq @ ''Google'' @ dq @ '' interview questions'') [ex_rejected, ex_accepted])
        ''Google'' None 8 =
      Inr [\<lparr>name = JStr ''c/d'', url = ''https://github.com/a/b''\<rparr>]"
    by code_simp
  show ?thesis using a b c d e by blast
qed

section \<open>Role-specific resources first\<close>

text \<open>
  C4. The result is cut from the accepted list with the role-specific entries first
  and the others after them, each group in the order of acceptance. With a role
  supplied that is what the sort does to any list, so records
  \<open>[A(false), B(true), C(false), D(true)]\<close> come out as \<open>[B, D, A, C]\<close>; with no role
  supplied nothing is reordered (and no entry is role-specific).
\<close>

theorem role_priority_stable:
  "filter_results company job_role max_results repos =
      (case scan (lower company) (normalize_role job_role)
              (keywords_for (normalize_role job_role)) max_results {} [] repos of
         Inl e \<Rightarrow> Inl e
       | Inr acc \<Rightarrow>
           Inr (slice_to (map strip_role
                  (filter role_specific acc @ filter (\<lambda>x. \<not> role_specific x) acc))
                max_results))
   \<and> (job_role_given jr \<longrightarrow>
        prioritize jr xs = filter role_specific xs @ filter (\<lambda>x. \<not> role_specific x) xs)
   \<and> (job_role_given jr \<and> \<not> role_specific a \<and> role_specific b \<and> \<not> role_specific c \<and>
        role_specific d \<longrightarrow> prioritize jr [a, b, c, d] = [b, d, a, c])
   \<and> (\<not> job_role_given jr \<longrightarrow> prioritize jr xs = xs)"
proof -
  have c1: "filter_results company job_role max_results repos =
      (case scan (lower company) (normalize_role job_role)
              (keywords_for (normalize_role job_role)) max_results {} [] repos of
         Inl e \<Rightarrow> Inl e
       | Inr acc \<Rightarrow>
           Inr (slice_to (map strip_role
                  (filter role_specific acc @ filter (\<lambda>x. \<not> role_specific x) acc))
                max_results))"
    unfolding filter_results_scan
    by (auto split: sum.splits dest: prioritize_scan)
  have c2: "job_role_given jr \<longrightarrow>
        prioritize jr ys = filter role_specific ys @ filter (\<lambda>x. \<not> role_specific x) ys" for ys
    by (simp add: prioritize_def sort_key_not)
  have c3: "job_role_given jr \<and> \<not> role_specific a \<and> role_specific b \<and> \<not> role_specific c \<and>
        role_specific d \<longrightarrow> prioritize jr [a, b, c, d] = [b, d, a, c]"
    using c2 [of "[a, b, c, d]"] by simp
  have c4: "\<not> job_role_given jr \<longrightarrow> prioritize jr xs = xs"
    by (simp add: prioritize_def)
  show ?thesis using c1 c2 [of xs] c3 c4 by blast
qed

theorem role_priority_stable_witness:
  "job_role_given (Some ''SDE'')
   \<and> prioritize (Some ''SDE'')
       [\<lparr>name = JStr ''A'', url = ''a'', role_specific = False\<rparr>,
        \<lparr>name = JStr ''B'', url = ''b'', role_specific = True\<rparr>,
        \<lparr>name = JStr ''C'', url = ''c'', role_specific = False\<rparr>,
        \<lparr>name = JStr ''D'', url = ''d'', role_specific = True\<rparr>] =
       [\<lparr>name = JStr ''B'', url = ''b'', role_specific = True\<rparr>,
        \<lparr>name = JStr ''D'', url = ''d'', role_specific = True\<rparr>,
        \<lparr>name = JStr ''A'', url = ''a'', role_specific = False\<rparr>,
        \<lparr>name = JStr ''C'', url = ''c'', role_specific = False\<rparr>]
   \<and> \<not> job_role_given None
   \<and> prioritize None
       [\<lparr>name = JStr ''A'', url = ''a'', role_specific = False\<rparr>,
        \<lparr>name = JStr ''B'', url = ''b'', role_specific = True\<rparr>] =
       [\<lparr>name = JStr ''A'', url = ''a'', role_specific = False\<rparr>,
        \<lparr>name = JStr ''B'', url = ''b'', role_specific = True\<rparr>]
   \<and> filter_results ''Google'' (Some ''SDE'') 8 [ex_accepted, ex_role] =
       Inr [\<lparr>name = JStr ''r/s'', url = ''https://github.com/r/s''\<rparr>,
            \<lparr>name = JStr ''c/d'', url = ''https://github.com/a/b''\<rparr>]"
proof -
  have g: "job_role_given (Some ''SDE'')" by code_simp
  have ng: "\<not> job_role_given None" by code_simp
  have n: "normalize_role (Some ''SDE'') = Some ''sde''" by code_simp
  have sc: "scan (lower ''Google'') (Some ''sde'') (keywords_for (Some ''sde'')) 8 {} []
        [ex_accepted, ex_role] =
      Inr [\<lparr>name = JStr ''c/d'', url = ''https://github.com/a/b'', role_specific = False\<rparr>,
           \<lparr>name = JStr ''r/s'', url = ''https://github.com/r/s'', role_specific = True\<rparr>]"
    by code_simp
  have sl: "slice_to [x, y] 8 = [x, y]" for x y :: resource
    by (simp add: slice_to_def)
  note T = role_priority_stable [where company = "''Google''" and job_role = "Some ''SDE''"
      and max_results = 8 and repos = "[ex_accepted, ex_role]" and jr = "Some ''SDE''"
      and a = "\<lparr>name = JStr ''A'', url = ''a'', role_specific = False\<rparr>"
      and b = "\<lparr>name = JStr ''B'', url = ''b'', role_specific = True\<rparr>"
      and c = "\<lparr>name = JStr ''C'', url = ''c'', role_specific = False\<rparr>"
      and d = "\<lparr>name = JStr ''D'', url = ''d'', role_specific = True\<rparr>"]
  note U = role_priority_stable [where jr = None
      and xs = "[\<lparr>name = JStr ''A'', url = ''a'', role_specific = False\<rparr>,
        \<lparr>name = JStr ''B'', url = ''b'', role_specific = True\<rparr>]"]
  have w1: "prioritize (Some ''SDE'')
       [\<lparr>name = JStr ''A'', url = ''a'', role_specific = False\<rparr>,
        \<lparr>name = JStr ''B'', url = ''b'', role_specific = True\<rparr>,
        \<lparr>name = JStr ''C'', url = ''c'', role_specific = False\<rparr>,
        \<lparr>name = JStr ''D'', url = ''d'', role_specific = True\<rparr>] =
       [\<lparr>name = JStr ''B'', url = ''b'', role_specific = True\<rparr>,
        \<lparr>name = JStr ''D'', url = ''d'', role_specific = True\<rparr>,
        \<lparr>name = JStr ''A'', url = ''a'', role_specific = False\<rparr>,
        \<lparr>name = JStr ''C'', url = ''c'', role_specific = False\<rparr>]"
    using T g by simp
  have w2: "prioritize None
       [\<lparr>name = JStr ''A'', url = ''a'', role_specific = False\<rparr>,
        \<lparr>name = JStr ''B'', url = ''b'', role_specific = True\<rparr>] =
       [\<lparr>name = JStr ''A'', url = ''a'', role_specific = False\<rparr>,
        \<lparr>name = JStr ''B'', url = ''b'', role_specific = True\<rparr>]"
    using U ng by blast
  have w3: "filter_results ''Google'' (Some ''SDE'') 8 [ex_accepted, ex_role] =
       Inr [\<lparr>name = JStr ''r/s'', url = ''https://github.com/r/s''\<rparr>,
            \<lparr>name = JStr ''c/d'', url = ''https://github.com/a/b''\<rparr>]"
    using T unfolding n sc by (simp add: strip_role_def sl)
  show ?thesis using g w1 ng w2 w3 by blast
qed

section \<open>The result cap and the early stop\<close>




section \<open>The fallback table on Facebook\<close>

text \<open>
  C6, as the code has it. A company name that lowercases to \<open>facebook\<close> (that is,
  \<open>Facebook\<close> in any letter case) gets, with no role, exactly the three entries stored
  under the key \<open>facebook\<close>. With the role \<open>frontend\<close> the role table does have a
  \<open>frontend\<close> key, so its two entries are put in front of the three company entries.
\<close>

theorem fallback_facebook:
  assumes "lower company = ''facebook''"
  shows "get_improved_fallback_resources company None =
      [\<lparr>name = JStr ''Meta/Facebook Interview Questions'',
        url = ''https://github.com/twowaits/SDE-Interview-Questions/tree/master/Facebook''\<rparr>,
       \<lparr>name = JStr ''Meta Technical Interview Guide'',
        url = ''https://github.com/khanhnamle1994/cracking-the-data-science-interview''\<rparr>,
       \<lparr>name = JStr ''Facebook Interview Resources'',
        url = ''https://github.com/krishnadey30/LeetCode-Questions-CompanyWise/blob/master/facebook_alltime.txt''\<rparr>]
    \<and> get_improved_fallback_resources company (Some ''frontend'') =
      [\<lparr>name = JStr ''Frontend Interview Questions'',
        url = ''https://github.com/h5bp/Front-end-Developer-Interview-Questions''\<rparr>,
       \<lparr>name = JStr ''Frontend Interview Handbook'',
        url = ''https://github.com/yangshun/front-end-interview-handbook''\<rparr>,
       \<lparr>name = JStr ''Meta/Facebook Interview Questions'',
        url = ''https://github.com/twowaits/SDE-Interview-Questions/tree/master/Facebook''\<rparr>,
       \<lparr>name = JStr ''Meta Technical Interview Guide'',
        url = ''https://github.com/khanhnamle1994/cracking-the-data-science-interview''\<rparr>,
       \<lparr>name = JStr ''Facebook Interview Resources'',
        url = ''https://github.com/krishnadey30/LeetCode-Questions-CompanyWise/blob/master/facebook_alltime.txt''\<rparr>]"
  unfolding get_improved_fallback_resources_def assms Let_def option.sel
    company_match_facebook lower_frontend role_match_frontend
  by simp

theorem fallback_facebook_witness:
  "lower ''FaceBook'' = ''facebook''
   \<and> get_improved_fallback_resources ''FaceBook'' None =
      [\<lparr>name = JStr ''Meta/Facebook Interview Questions'',
        url = ''https://github.com/twowaits/SDE-Interview-Questions/tree/master/Facebook''\<rparr>,
       \<lparr>name = JStr ''Meta Technical Interview Guide'',
        url = ''https://github.com/khanhnamle1994/cracking-the-data-science-interview''\<rparr>,
       \<lparr>name = JStr ''Facebook Interview Resources'',
        url = ''https://github.com/krishnadey30/LeetCode-Questions-CompanyWise/blob/master/facebook_alltime.txt''\<rparr>]
   \<and> get_improved_fallback_resources ''FaceBook'' (Some ''frontend'') =
      [\<lparr>name = JStr ''Frontend Interview Questions'',
        url = ''https://github.com/h5bp/Front-end-Developer-Interview-Questions''\<rparr>,
       \<lparr>name = JStr ''Frontend Interview Handbook'',
        url = ''https://github.com/yangshun/front-end-interview-handbook''\<rparr>,
       \<lparr>name = JStr ''Meta/Facebook Interview Questions'',
        url = ''https://github.com/twowaits/SDE-Interview-Questions/tree/master/Facebook''\<rparr>,
       \<lparr>name = JStr ''Meta Technical Interview Guide'',
        url = ''https://github.com/khanhnamle1994/cracking-the-data-science-interview''\<rparr>,
       \<lparr>name = JStr ''Facebook Interview Resources'',
        url = ''https://github.com/krishnadey30/LeetCode-Questions-CompanyWise/blob/master/facebook_alltime.txt''\<rparr>]"
proof -
  have h: "lower ''FaceBook'' = ''facebook''" by code_simp
  show ?thesis using h fallback_facebook [OF h] by simp
qed

text \<open>
  C6 as it is stated fails: with the role \<open>frontend\<close> the result is not the three company
  entries alone.
\<close>

theorem fallback_facebook_frontend_counterexample:
  "get_improved_fallback_resources ''facebook'' (Some ''frontend'') \<noteq>
      [\<lparr>name = JStr ''Meta/Facebook Interview Questions'',
        url = ''https://github.com/twowaits/SDE-Interview-Questions/tree/master/Facebook''\<rparr>,
       \<lparr>name = JStr ''Meta Technical Interview Guide'',
        url = ''https://github.com/khanhnamle1994/cracking-the-data-science-interview''\<rparr>,
       \<lparr>name = JStr ''Facebook Interview Resources'',
        url = ''https://github.com/krishnadey30/LeetCode-Questions-CompanyWise/blob/master/facebook_alltime.txt''\<rparr>]"
  by code_simp

section \<open>The uncertainty phrases of the overview\<close>

text \<open>
  C7 at a failing input. The model confirms the company and then answers
  \<open>I cannot say.\<close>, which contains the listed phrase \<open>I cannot\<close>. The phrases are
  looked for in the lowercased answer, where a capital I cannot occur, so the answer
  comes back as it is, without the qualifying sentence in front.
\<close>

theorem overview_uncertain_answer_not_prefixed:
  "list_ex (\<lambda>phrase. py_in phrase ''I cannot say.'') uncertainty_phrases
   \<and> generate_company_overview
       (\<lambda>prompt. if prompt = validation_prompt ''Acme'' then Inr ''Yes.''
                  else Inr ''I cannot say.'')
       ''Acme'' None = ''I cannot say.''"
  by code_simp

section \<open>A record without a description\<close>

text \<open>
  C8. When the \<open>description\<close> key of a record is missing or holds \<open>null\<close>, the
  description is the empty string: the haystack is the lowercased name followed by the
  separating space, and the only error the haystack can raise comes from the name.
  The record is not skipped: it goes through both gates on that haystack. When its URL
  is unseen and the haystack passes both gates it is accepted; when a gate rejects the
  haystack it is passed over like any rejected record; and on its own, passing both
  gates, it is the result returned for a positive \<open>max_results\<close>. At every state of
  the loop and at every place of the input it is handled exactly as the same record
  with the description \<open>""\<close>.
\<close>

theorem missing_description_is_empty_string:
  assumes "repo ''description'' = None \<or> repo ''description'' = Some JNull"
  shows "get_description repo = []
    \<and> content_of repo = (case get_name repo of Inl e \<Rightarrow> Inl e | Inr n \<Rightarrow> Inr (n @ '' ''))
    \<and> (get_url repo = Some u \<and> u \<notin> seen \<and> get_name repo = Inr n \<and>
        py_in cl (n @ '' '') \<and> list_ex (\<lambda>k. py_in k (n @ '' '')) kws \<and>
        repo ''full_name'' = Some fn \<longrightarrow>
        scan cl jr kws mr seen acc (repo # rest) =
          (if mr * 2 \<le> int (length acc) + 1
           then Inr (acc @ [\<lparr>name = fn, url = u, role_specific =
                   (job_role_given jr \<and>
                    list_ex (\<lambda>t. py_in t (n @ '' '')) (split (lower (the jr))))\<rparr>])
           else scan cl jr kws mr (insert u seen)
                  (acc @ [\<lparr>name = fn, url = u, role_specific =
                   (job_role_given jr \<and>
                    list_ex (\<lambda>t. py_in t (n @ '' '')) (split (lower (the jr))))\<rparr>]) rest))
    \<and> (get_name repo = Inr n \<and> int (length acc) < mr * 2 \<and>
        \<not> (py_in cl (n @ '' '') \<and> list_ex (\<lambda>k. py_in k (n @ '' '')) kws) \<longrightarrow>
        scan cl jr kws mr seen acc (repo # rest) = scan cl jr kws mr seen acc rest)
    \<and> (0 < max_results \<and> get_url repo = Some u \<and> get_name repo = Inr n \<and>
        py_in (lower company) (n @ '' '') \<and>
        list_ex (\<lambda>k. py_in k (n @ '' '')) (keywords_for (normalize_role job_role)) \<and>
        repo ''full_name'' = Some fn \<longrightarrow>
        filter_results company job_role max_results [repo] = Inr [\<lparr>name = fn, url = u\<rparr>])
    \<and> scan cl jr kws mr seen acc (repo # rest) =
        scan cl jr kws mr seen acc (repo(''description'' \<mapsto> JStr []) # rest)
    \<and> filter_results company job_role max_results (xs @ repo # ys) =
        filter_results company job_role max_results (xs @ repo(''description'' \<mapsto> JStr []) # ys)"
proof -
  let ?r = "repo(''description'' \<mapsto> JStr [])"
  have d: "get_description repo = []"
    using assms by (auto simp: get_description_def lower_Nil)
  have d': "get_description ?r = []" by (simp add: get_description_def lower_Nil)
  have nm: "get_name ?r = get_name repo" by (simp add: get_name_def)
  have u: "get_url repo = get_url ?r" by (simp add: get_url_def)
  have f: "repo ''full_name'' = ?r ''full_name''" by simp
  have c: "content_of repo = content_of ?r"
    unfolding content_of_def nm d d' by simp
  have c2: "content_of repo = (case get_name repo of Inl e \<Rightarrow> Inl e | Inr n \<Rightarrow> Inr (n @ '' ''))"
    unfolding content_of_def d by (cases "get_name repo") simp_all
  have cn: "content_of repo = Inr (n @ '' '')" if "get_name repo = Inr n" for n
    using c2 that by simp
  have a: "get_url repo = Some u \<and> u \<notin> seen \<and> get_name repo = Inr n \<and>
        py_in cl (n @ '' '') \<and> list_ex (\<lambda>k. py_in k (n @ '' '')) kws \<and>
        repo ''full_name'' = Some fn \<longrightarrow>
        scan cl jr kws mr seen acc (repo # rest) =
          (if mr * 2 \<le> int (length acc) + 1
           then Inr (acc @ [\<lparr>name = fn, url = u, role_specific =
                   (job_role_given jr \<and>
                    list_ex (\<lambda>t. py_in t (n @ '' '')) (split (lower (the jr))))\<rparr>])
           else scan cl jr kws mr (insert u seen)
                  (acc @ [\<lparr>name = fn, url = u, role_specific =
                   (job_role_given jr \<and>
                    list_ex (\<lambda>t. py_in t (n @ '' '')) (split (lower (the jr))))\<rparr>]) rest)"
    using scan_accept [of repo u seen "n @ '' ''" cl kws fn jr mr acc rest] cn [of n] by blast
  have r: "get_name repo = Inr n \<and> int (length acc) < mr * 2 \<and>
        \<not> (py_in cl (n @ '' '') \<and> list_ex (\<lambda>k. py_in k (n @ '' '')) kws) \<longrightarrow>
        scan cl jr kws mr seen acc (repo # rest) = scan cl jr kws mr seen acc rest"
    using scan_reject [of repo "n @ '' ''" cl kws acc mr jr seen rest] cn [of n] by blast
  have one: "0 < max_results \<and> get_url repo = Some u \<and> get_name repo = Inr n \<and>
        py_in (lower company) (n @ '' '') \<and>
        list_ex (\<lambda>k. py_in k (n @ '' '')) (keywords_for (normalize_role job_role)) \<and>
        repo ''full_name'' = Some fn \<longrightarrow>
        filter_results company job_role max_results [repo] = Inr [\<lparr>name = fn, url = u\<rparr>]"
    using filter_results_single [of max_results repo u company job_role fn] cn [of n]
    unfolding passes_gates_iff by blast
  have s: "scan cl jr kws mr seen acc (repo # rest) = scan cl jr kws mr seen acc (?r # rest)"
    by (rule scan_same_fields [OF u c f])
  have fr: "filter_results company job_role max_results (xs @ repo # ys) =
        filter_results company job_role max_results (xs @ ?r # ys)"
    unfolding filter_results_scan scan_same_fields_mid [OF u c f] by simp
  show ?thesis using d c2 a r one s fr by blast
qed

theorem missing_description_is_empty_string_witness:
  "ex_accepted ''description'' = Some JNull
   \<and> ex_role ''description'' = None
   \<and> get_description ex_accepted = []
   \<and> content_of ex_role = (case get_name ex_role of Inl e \<Rightarrow> Inl e | Inr n \<Rightarrow> Inr (n @ '' ''))
   \<and> content_of ex_role = Inr ''google-sde-notes ''
   \<and> get_name ex_accepted = Inr ''google-leetcode''
   \<and> py_in (lower ''Google'') (''google-leetcode'' @ '' '')
   \<and> list_ex (\<lambda>k. py_in k (''google-leetcode'' @ '' '')) (keywords_for (normalize_role None))
   \<and> scan (lower ''Google'') None (keywords_for (normalize_role None)) 8 {} []
        (ex_accepted # [ex_other]) =
      scan (lower ''Google'') None (keywords_for (normalize_role None)) 8
        {''https://github.com/a/b''}
        [\<lparr>name = JStr ''c/d'', url = ''https://github.com/a/b'', role_specific = False\<rparr>]
        [ex_other]
   \<and> filter_results ''Google'' None 8 [ex_accepted] =
      Inr [\<lparr>name = JStr ''c/d'', url = ''https://github.com/a/b''\<rparr>]
   \<and> get_name ex_role = Inr ''google-sde-notes''
   \<and> \<not> list_ex (\<lambda>k. py_in k (''google-sde-notes'' @ '' '')) (keywords_for (normalize_role None))
   \<and> scan (lower ''Google'') None (keywords_for (normalize_role None)) 8 {} []
        (ex_role # [ex_other]) =
      scan (lower ''Google'') None (keywords_for (normalize_role None)) 8 {} [] [ex_other]
   \<and> filter_results ''Google'' None 8 ([ex_rejected] @ ex_accepted # [ex_other]) =
      filter_results ''Google'' None 8
        ([ex_rejected] @ ex_accepted(''description'' \<mapsto> JStr []) # [ex_other])
   \<and> filter_results ''Google'' None 8 ([ex_rejected] @ ex_accepted # [ex_other]) =
      Inr [\<lparr>name = JStr ''c/d'', url = ''https://github.com/a/b''\<rparr>,
           \<lparr>name = JStr ''g/h'', url = ''https://github.com/g/h''\<rparr>]"
proof -
  let ?u = "''https://github.com/a/b''"
  let ?cl = "lower ''Google''"
  let ?kw = "keywords_for (normalize_role None)"
  have a: "ex_accepted ''description'' = Some JNull" by code_simp
  have b: "ex_role ''description'' = None" by code_simp
  have c: "content_of ex_role = Inr ''google-sde-notes ''" by code_simp
  have e: "filter_results ''Google'' None 8 ([ex_rejected] @ ex_accepted # [ex_other]) =
      Inr [\<lparr>name = JStr ''c/d'', url = ?u\<rparr>,
           \<lparr>name = JStr ''g/h'', url = ''https://github.com/g/h''\<rparr>]" by code_simp
  have gu: "get_url ex_accepted = Some ?u" by code_simp
  have gn: "get_name ex_accepted = Inr ''google-leetcode''" by code_simp
  have pc: "py_in ?cl (''google-leetcode'' @ '' '')" by code_simp
  have pk: "list_ex (\<lambda>k. py_in k (''google-leetcode'' @ '' '')) ?kw" by code_simp
  have fn: "ex_accepted ''full_name'' = Some (JStr ''c/d'')" by code_simp
  have ng: "\<not> job_role_given None" by code_simp
  have rn: "get_name ex_role = Inr ''google-sde-notes''" by code_simp
  have rk: "\<not> list_ex (\<lambda>k. py_in k (''google-sde-notes'' @ '' '')) ?kw" by code_simp
  have a': "ex_accepted ''description'' = None \<or> ex_accepted ''description'' = Some JNull"
    using a by simp
  have b': "ex_role ''description'' = None \<or> ex_role ''description'' = Some JNull"
    using b by simp
  note A = missing_description_is_empty_string [where repo = ex_accepted
      and company = "''Google''" and job_role = None and max_results = 8
      and xs = "[ex_rejected]" and ys = "[ex_other]" and u = ?u and seen = "{}"
      and n = "''google-leetcode''" and cl = ?cl and kws = ?kw and fn = "JStr ''c/d''"
      and jr = None and mr = 8 and acc = "[]" and rest = "[ex_other]", OF a']
  note B = missing_description_is_empty_string [where repo = ex_role
      and n = "''google-sde-notes''" and cl = ?cl and kws = ?kw
      and jr = None and mr = 8 and acc = "[]" and seen = "{}" and rest = "[ex_other]", OF b']
  have w1: "scan ?cl None ?kw 8 {} [] (ex_accepted # [ex_other]) =
      scan ?cl None ?kw 8 {?u}
        [\<lparr>name = JStr ''c/d'', url = ?u, role_specific = False\<rparr>] [ex_other]"
    using A gu gn pc pk fn ng by simp
  have w2: "filter_results ''Google'' None 8 [ex_accepted] =
      Inr [\<lparr>name = JStr ''c/d'', url = ?u\<rparr>]"
    using A gu gn pc pk fn by simp
  have w3: "scan ?cl None ?kw 8 {} [] (ex_role # [ex_other]) =
      scan ?cl None ?kw 8 {} [] [ex_other]"
    using B rn rk by simp
  have w4: "filter_results ''Google'' None 8 ([ex_rejected] @ ex_accepted # [ex_other]) =
      filter_results ''Google'' None 8
        ([ex_rejected] @ ex_accepted(''description'' \<mapsto> JStr []) # [ex_other])"
    using A by blast
  have w5: "get_description ex_accepted = []" using A by blast
  have w6: "content_of ex_role =
      (case get_name ex_role of Inl e \<Rightarrow> Inl e | Inr n \<Rightarrow> Inr (n @ '' ''))"
    using B by blast
  show ?thesis using a b w5 w6 c gn pc pk w1 w2 rn rk w3 w4 e by blast
qed

section \<open>A rejected record does not mark its URL\<close>

text \<open>
  C9, as the code has it. A URL enters \<open>seen_urls\<close> only when its record is accepted:
  a record that is skipped for its URL leaves the loop state untouched, and so does
  a record that a gate rejects.
  While the loop runs (the accepted count is below twice \<open>max_results\<close>), a record that
  a gate rejects leaves \<open>seen_urls\<close> and the accepted list as they were, so for a
  positive \<open>max_results\<close> the result for any input list is the result for the list
  without the rejected record: a rejected occurrence of a URL does not suppress later
  ones. A later record with the same URL that passes both gates is accepted when the
  loop reaches it with that URL still unseen (and the record has a \<open>full_name\<close>): it is
  appended and its URL is marked. In the list of just a rejected record and a later
  record with the same URL that passes both gates, the later record is the one
  returned.
\<close>

theorem rejected_record_leaves_url_unseen:
  "(get_url rs = None \<or> (\<exists>us. get_url rs = Some us \<and> us \<in> seen) \<longrightarrow>
      scan cl jr kws mr seen acc (rs # rest) = scan cl jr kws mr seen acc rest)
   \<and> (int (length acc) < mr * 2 \<and> content_of r = Inr c \<and>
      \<not> (py_in cl c \<and> list_ex (\<lambda>k. py_in k c) kws) \<longrightarrow>
      scan cl jr kws mr seen acc (r # rest) = scan cl jr kws mr seen acc rest)
   \<and> (0 < max_results \<and> content_of r = Inr c \<and>
      \<not> (py_in (lower company) c \<and>
         list_ex (\<lambda>k. py_in k c) (keywords_for (normalize_role job_role))) \<longrightarrow>
      filter_results company job_role max_results (xs @ r # ys) =
      filter_results company job_role max_results (xs @ ys))
   \<and> (get_url rb = Some u \<and> u \<notin> seen \<and> content_of rb = Inr cb \<and> py_in cl cb \<and>
      list_ex (\<lambda>k. py_in k cb) kws \<and> rb ''full_name'' = Some fn \<longrightarrow>
      scan cl jr kws mr seen acc (rb # rest) =
        (if mr * 2 \<le> int (length acc) + 1
         then Inr (acc @ [\<lparr>name = fn, url = u, role_specific =
                 (job_role_given jr \<and> list_ex (\<lambda>t. py_in t cb) (split (lower (the jr))))\<rparr>])
         else scan cl jr kws mr (insert u seen)
                (acc @ [\<lparr>name = fn, url = u, role_specific =
                 (job_role_given jr \<and> list_ex (\<lambda>t. py_in t cb) (split (lower (the jr))))\<rparr>])
                rest))
   \<and> (0 < max_results \<and> content_of r = Inr c \<and>
      \<not> (py_in (lower company) c \<and>
         list_ex (\<lambda>k. py_in k c) (keywords_for (normalize_role job_role))) \<and>
      get_url r = Some u \<and> get_url rb = Some u \<and> content_of rb = Inr cb \<and>
      py_in (lower company) cb \<and>
      list_ex (\<lambda>k. py_in k cb) (keywords_for (normalize_role job_role)) \<and>
      rb ''full_name'' = Some fn \<longrightarrow>
      filter_results company job_role max_results [r, rb] = Inr [\<lparr>name = fn, url = u\<rparr>])"
proof (intro conjI impI)
  assume "get_url rs = None \<or> (\<exists>us. get_url rs = Some us \<and> us \<in> seen)"
  then show "scan cl jr kws mr seen acc (rs # rest) = scan cl jr kws mr seen acc rest"
    by (rule scan_skip)
next
  assume "int (length acc) < mr * 2 \<and> content_of r = Inr c \<and>
      \<not> (py_in cl c \<and> list_ex (\<lambda>k. py_in k c) kws)"
  then show "scan cl jr kws mr seen acc (r # rest) = scan cl jr kws mr seen acc rest"
    using scan_reject [of r c cl kws acc mr jr seen rest] by blast
next
  assume "0 < max_results \<and> content_of r = Inr c \<and>
      \<not> (py_in (lower company) c \<and>
         list_ex (\<lambda>k. py_in k c) (keywords_for (normalize_role job_role)))"
  then show "filter_results company job_role max_results (xs @ r # ys) =
      filter_results company job_role max_results (xs @ ys)"
    using filter_results_drop_rejected [of max_results r c company job_role xs ys] by blast
next
  assume "get_url rb = Some u \<and> u \<notin> seen \<and> content_of rb = Inr cb \<and> py_in cl cb \<and>
      list_ex (\<lambda>k. py_in k cb) kws \<and> rb ''full_name'' = Some fn"
  then show "scan cl jr kws mr seen acc (rb # rest) =
        (if mr * 2 \<le> int (length acc) + 1
         then Inr (acc @ [\<lparr>name = fn, url = u, role_specific =
                 (job_role_given jr \<and> list_ex (\<lambda>t. py_in t cb) (split (lower (the jr))))\<rparr>])
         else scan cl jr kws mr (insert u seen)
                (acc @ [\<lparr>name = fn, url = u, role_specific =
                 (job_role_given jr \<and> list_ex (\<lambda>t. py_in t cb) (split (lower (the jr))))\<rparr>])
                rest)"
    using scan_accept [of rb u seen cb cl kws fn jr mr acc rest] by blast
next
  assume "0 < max_results \<and> content_of r = Inr c \<and>
      \<not> (py_in (lower company) c \<and>
         list_ex (\<lambda>k. py_in k c) (keywords_for (normalize_role job_role))) \<and>
      get_url r = Some u \<and> get_url rb = Some u \<and> content_of rb = Inr cb \<and>
      py_in (lower company) cb \<and>
      list_ex (\<lambda>k. py_in k cb) (keywords_for (normalize_role job_role)) \<and>
      rb ''full_name'' = Some fn"
  then show "filter_results company job_role max_results [r, rb] = Inr [\<lparr>name = fn, url = u\<rparr>]"
    using filter_results_second_after_rejected [of max_results r c company job_role rb u cb fn]
    by blast
qed

theorem rejected_record_leaves_url_unseen_witness:
  "content_of ex_rejected = Inr ''google-interview-questions notes''
   \<and> py_in (lower ''Google'') ''google-interview-questions notes''
   \<and> \<not> list_ex (\<lambda>k. py_in k ''google-interview-questions notes'')
         (keywords_for (normalize_role None))
   \<and> get_url ex_rejected = Some ''https://github.com/a/b''
   \<and> get_url ex_accepted = Some ''https://github.com/a/b''
   \<and> scan (lower ''Google'') None (keywords_for (normalize_role None)) 8 {} []
        (ex_rejected # [ex_accepted]) =
      scan (lower ''Google'') None (keywords_for (normalize_role None)) 8 {} [] [ex_accepted]
   \<and> scan (lower ''Google'') None (keywords_for (normalize_role None)) 8 {} []
        (ex_accepted # []) =
      scan (lower ''Google'') None (keywords_for (normalize_role None)) 8
        {''https://github.com/a/b''}
        [\<lparr>name = JStr ''c/d'', url = ''https://github.com/a/b'', role_specific = False\<rparr>] []
   \<and> filter_results ''Google'' None 8 ([ex_other] @ ex_rejected # [ex_accepted]) =
      filter_results ''Google'' None 8 ([ex_other] @ [ex_accepted])
   \<and> filter_results ''Google'' None 8 [ex_rejected, ex_accepted] =
      Inr [\<lparr>name = JStr ''c/d'', url = ''https://github.com/a/b''\<rparr>]"
proof -
  let ?u = "''https://github.com/a/b''"
  let ?c = "''google-interview-questions notes''"
  let ?cb = "''google-leetcode ''"
  let ?cl = "lower ''Google''"
  let ?kw = "keywords_for (normalize_role None)"
  have c: "content_of ex_rejected = Inr ?c" by code_simp
  have pc: "py_in ?cl ?c" by code_simp
  have nk: "\<not> list_ex (\<lambda>k. py_in k ?c) ?kw" by code_simp
  have g1: "get_url ex_rejected = Some ?u" by code_simp
  have g2: "get_url ex_accepted = Some ?u" by code_simp
  have cb: "content_of ex_accepted = Inr ?cb" by code_simp
  have pcb: "py_in ?cl ?cb" by code_simp
  have pkb: "list_ex (\<lambda>k. py_in k ?cb) ?kw" by code_simp
  have fn: "ex_accepted ''full_name'' = Some (JStr ''c/d'')" by code_simp
  have ng: "\<not> job_role_given None" by code_simp
  note T = rejected_record_leaves_url_unseen [where acc = "[]" and mr = 8 and r = ex_rejected
      and c = ?c and cl = ?cl and kws = ?kw
      and jr = None and seen = "{}" and max_results = 8
      and company = "''Google''" and job_role = None and xs = "[ex_other]"
      and ys = "[ex_accepted]" and u = ?u and rb = ex_accepted and cb = ?cb
      and fn = "JStr ''c/d''"]
  have w1: "scan ?cl None ?kw 8 {} [] (ex_rejected # [ex_accepted]) =
      scan ?cl None ?kw 8 {} [] [ex_accepted]"
    using T [where rest = "[ex_accepted]"] c nk by simp
  have w2: "scan ?cl None ?kw 8 {} [] (ex_accepted # []) =
      scan ?cl None ?kw 8 {?u}
        [\<lparr>name = JStr ''c/d'', url = ?u, role_specific = False\<rparr>] []"
    using T [where rest = "[]"] g2 cb pcb pkb fn ng by simp
  have w3: "filter_results ''Google'' None 8 ([ex_other] @ ex_rejected # [ex_accepted]) =
      filter_results ''Google'' None 8 ([ex_other] @ [ex_accepted])"
    using T c nk by simp
  have w4: "filter_results ''Google'' None 8 [ex_rejected, ex_accepted] =
      Inr [\<lparr>name = JStr ''c/d'', url = ?u\<rparr>]"
    using T c nk g1 g2 cb pcb pkb fn by simp
  show ?thesis using c pc nk g1 g2 w1 w2 w3 w4 by blast
qed

text \<open>
  C9 as it is stated fails: a later record with the URL of a rejected one, whose
  haystack passes both gates, is not always accepted. With the default \<open>max_results\<close>,
  in \<open>[ex_rejected, ex_accepted, ex_second]\<close> the three records share one URL, the
  first is rejected by the keyword gate, the second is accepted and the third, which
  passes both gates, is skipped. With \<open>max_results = 1\<close> and the role \<open>SDE\<close> the loop
  stops after two acceptances, before it reaches the later record. With
  \<open>max_results = 0\<close> the loop stops right after the rejected record.
\<close>

theorem later_record_not_accepted_counterexample:
  "get_url ex_rejected = Some ''https://github.com/a/b''
   \<and> get_url ex_accepted = Some ''https://github.com/a/b''
   \<and> get_url ex_second = Some ''https://github.com/a/b''
   \<and> content_of ex_rejected = Inr ''google-interview-questions notes''
   \<and> \<not> passes_gates (lower ''Google'') (keywords_for (normalize_role None)) ex_rejected
   \<and> passes_gates (lower ''Google'') (keywords_for (normalize_role None)) ex_second
   \<and> ex_second ''full_name'' = Some (JStr ''e/f'')
   \<and> get_github_resources
        (fetch_first (dq @ ''Google'' @ dq @ '' interview questions'')
           [ex_rejected, ex_accepted, ex_second])
        ''Google'' None 8 =
      Inr [\<lparr>name = JStr ''c/d'', url = ''https://github.com/a/b''\<rparr>]
   \<and> \<not> passes_gates (lower ''Google'') (keywords_for (Some ''sde'')) ex_rejected
   \<and> passes_gates (lower ''Google'') (keywords_for (Some ''sde'')) ex_accepted
   \<and> scan (lower ''Google'') (Some ''sde'') (keywords_for (Some ''sde'')) 1 {} []
        [ex_rejected, ex_other, ex_role, ex_accepted] =
      Inr [\<lparr>name = JStr ''g/h'', url = ''https://github.com/g/h'', role_specific = False\<rparr>,
           \<lparr>name = JStr ''r/s'', url = ''https://github.com/r/s'', role_specific = True\<rparr>]
   \<and> filter_results ''Google'' (Some ''SDE'') 1 [ex_rejected, ex_other, ex_role, ex_accepted] =
      Inr [\<lparr>name = JStr ''r/s'', url = ''https://github.com/r/s''\<rparr>]
   \<and> passes_gates (lower ''Google'') (keywords_for (normalize_role None)) ex_accepted
   \<and> scan (lower ''Google'') None (keywords_for (normalize_role None)) 0 {} []
        [ex_rejected, ex_accepted] = Inr []
   \<and> scan (lower ''Google'') None (keywords_for (normalize_role None)) 0 {} []
        [ex_accepted] =
      Inr [\<lparr>name = JStr ''c/d'', url = ''https://github.com/a/b'', role_specific = False\<rparr>]"
  by code_simp

section \<open>A role of whitespace only\<close>

text \<open>
  C10. A job role made of whitespace only (the empty string included) fails the guard
  \<open>job_role and job_role.strip()\<close> at each of its four places. The queries are the five
  base queries, the keyword list is not extended, no accepted record is marked
  role-specific, the accepted list is not sorted, and the result is the result for
  no role at all, for every search answer, company and \<open>max_results\<close>.
\<close>

theorem whitespace_role_is_no_role:
  assumes "\<forall>c\<in>set role. isspace c"
  shows "get_github_resources fetch company (Some role) max_results =
      get_github_resources fetch company None max_results
    \<and> search_queries company (Some role) = base_queries company
    \<and> keywords_for (normalize_role (Some role)) = interview_keywords
    \<and> prioritize (normalize_role (Some role)) xs = xs
    \<and> list_all (\<lambda>t. \<not> role_specific t)
        (case scan cl (normalize_role (Some role)) kws mr {} [] repos of
           Inl e \<Rightarrow> [] | Inr acc \<Rightarrow> acc)"
proof -
  have ng: "\<not> job_role_given (Some role)"
    using strip_all_space [OF assms] by (simp add: job_role_given_def)
  have nn: "\<not> job_role_given None" by (simp add: job_role_given_def)
  have n: "normalize_role (Some role) = Some role" using ng by (simp add: normalize_role_def)
  have n0: "normalize_role None = None" by (simp add: normalize_role_def nn)
  have q: "search_queries company (Some role) = base_queries company"
    using ng by (simp add: search_queries_def)
  have q0: "search_queries company None = base_queries company"
    using nn by (simp add: search_queries_def)
  have k: "keywords_for (Some role) = interview_keywords" using ng by (simp add: keywords_for_def)
  have k0: "keywords_for None = interview_keywords" using nn by (simp add: keywords_for_def)
  have p: "prioritize (Some role) ys = ys" for ys using ng by (simp add: prioritize_def)
  have p0: "prioritize None ys = ys" for ys using nn by (simp add: prioritize_def)
  have s: "scan c (Some role) ks m {} [] zs = scan c None ks m {} [] zs" for c ks m zs
    by (rule scan_role_irrelevant [OF ng nn])
  have f: "filter_results company (Some role) max_results zs =
      filter_results company None max_results zs" for zs
    unfolding filter_results_scan n n0 k k0 s p p0 by simp
  have g: "get_github_resources fetch company (Some role) max_results =
      get_github_resources fetch company None max_results"
    unfolding get_github_resources_def n n0 q q0 f by simp
  have fl: "list_all (\<lambda>t. \<not> role_specific t)
        (case scan cl (Some role) kws mr {} [] repos of Inl e \<Rightarrow> [] | Inr acc \<Rightarrow> acc)"
    using scan_flags_false [OF ng, of "[]" cl kws mr "{}" repos]
    by (auto split: sum.splits)
  show ?thesis using g q k p fl unfolding n by blast
qed

theorem whitespace_role_is_no_role_witness:
  "list_all isspace ''  ''
   \<and> get_github_resources
        (fetch_first (dq @ ''Google'' @ dq @ '' interview questions'') [ex_rejected, ex_accepted])
        ''Google'' (Some ''  '') 8 =
      get_github_resources
        (fetch_first (dq @ ''Google'' @ dq @ '' interview questions'') [ex_rejected, ex_accepted])
        ''Google'' None 8
   \<and> get_github_resources
        (fetch_first (dq @ ''Google'' @ dq @ '' interview questions'') [ex_rejected, ex_accepted])
        ''Google'' (Some ''  '') 8 =
      Inr [\<lparr>name = JStr ''c/d'', url = ''https://github.com/a/b''\<rparr>]
   \<and> search_queries ''Google'' (Some ''  '') = base_queries ''Google''
   \<and> keywords_for (normalize_role (Some ''  '')) = interview_keywords"
proof -
  have l: "list_all isspace ''  ''" by code_simp
  have h: "\<forall>c\<in>set ''  ''. isspace c" using l by (simp only: list_all_iff)
  have e: "get_github_resources
        (fetch_first (dq @ ''Google'' @ dq @ '' interview questions'') [ex_rejected, ex_accepted])
        ''Google'' (Some ''  '') 8 =
      Inr [\<lparr>name = JStr ''c/d'', url = ''https://github.com/a/b''\<rparr>]" by code_simp
  note T = whitespace_role_is_no_role [OF h, where company = "''Google''" and max_results = 8
      and fetch = "fetch_first (dq @ ''Google'' @ dq @ '' interview questions'')
          [ex_rejected, ex_accepted]"]
  show ?thesis using l e T by blast
qed

end
